theory Spec2Isabelle
  imports Complex_Main "HOL-Library.Multiset"
begin

section \<open>Values of the source language\<close>

text \<open>
  The source is TypeScript. A \<open>number\<close> is modelled as a \<^typ>\<open>real\<close>: prices come from a
  \<open>DECIMAL(10,2)\<close> column and the pricing value from \<open>parseFloat(...) || 0\<close>, so neither is
  NaN or infinite, and rounding is not part of any property below. \<open>T | null\<close> is
  \<^typ>\<open>'a option\<close>. A string is a list of bytes (its UTF-8 encoding), so that the Cyrillic
  literals of the source are written byte by byte.

  JavaScript's truthiness decides several branches of the code: of a nullable number, \<open>null\<close>
  and \<open>0\<close> are falsy; of a nullable string, \<open>null\<close> and the empty string are falsy.
\<close>

fun truthy_number :: "real option \<Rightarrow> bool" where
  "truthy_number None = False"
| "truthy_number (Some x) = (x \<noteq> 0)"

fun truthy_string :: "string option \<Rightarrow> bool" where
  "truthy_string None = False"
| "truthy_string (Some s) = (s \<noteq> [])"

text \<open>\<open>a || b\<close> on nullable strings, where \<open>b\<close> is a nullable string as well.\<close>

definition or_string :: "string option \<Rightarrow> string option \<Rightarrow> string option" where
  "or_string a b = (if truthy_string a then a else b)"


text \<open>
  Decimal printing, for \<open>toString()\<close> and template literals on integer-valued numbers (below
  \<open>1e21\<close> JavaScript prints these as plain decimal numerals).
\<close>

definition digit_char :: "nat \<Rightarrow> char" where
  "digit_char d = ''0123456789'' ! d"

function nat_to_string :: "nat \<Rightarrow> string" where
  "nat_to_string n =
     (if n < 10 then [digit_char n] else nat_to_string (n div 10) @ [digit_char (n mod 10)])"
  by pat_completeness auto
termination
  by (relation "measure (\<lambda>n. n)") auto

declare nat_to_string.simps [simp del]

definition int_to_string :: "int \<Rightarrow> string" where
  "int_to_string i = (if i < 0 then ''-'' @ nat_to_string (nat (- i)) else nat_to_string (nat i))"

text \<open>A toast shown to the user: title, description, and whether it is the destructive variant.\<close>

record toast =
  toast_title :: string
  toast_description :: string
  destructive :: bool

section \<open>The product row\<close>

text \<open>The interface \<open>Product\<close> of \<open>PriceUpdateModal.tsx\<close>; \<open>display_name\<close> is its optional field.\<close>

record Product =
  id_p :: string
  name_supplier :: string
  name_marketplace :: "string option"
  supplier_article :: string
  marketplace_article :: "string option"
  current_price :: "real option"
  new_price :: "real option"
  price_status :: "string option"
  pricing_action :: "string option"
  pricing_value :: "real option"
  display_name :: "string option"

section \<open>Pricing rule evaluator\<close>

text \<open>
  \<open>calculateNewPrice\<close> of \<open>PriceUpdateModal.tsx\<close>: the guard \<open>if (!currentPrice) return null\<close>
  comes first, then the \<open>switch\<close> on the action string with its \<open>default\<close> branch.
\<close>

definition calculateNewPrice :: "real option \<Rightarrow> string \<Rightarrow> real \<Rightarrow> real option" where
  "calculateNewPrice currentPrice action v =
     (if \<not> truthy_number currentPrice then None
      else case currentPrice of
             None \<Rightarrow> None
           | Some p \<Rightarrow>
               (if action = ''multiply'' then Some (p * v)
                else if action = ''add'' then Some (p + v)
                else Some p))"

section \<open>Price-change classifier\<close>

text \<open>
  The conditional expression that computes \<open>price_status\<close> inside \<open>applyGlobalPricing\<close>:
  \<open>newPrice && product.current_price ? (newPrice > current ? 'increased' : newPrice < current ?
  'decreased' : 'unchanged') : 'unchanged'\<close>.
\<close>

definition classify :: "real option \<Rightarrow> real option \<Rightarrow> string" where
  "classify oldPrice newPrice =
     (if truthy_number newPrice \<and> truthy_number oldPrice then
        (case (newPrice, oldPrice) of
           (Some n, Some c) \<Rightarrow>
             (if n > c then ''increased''
              else if n < c then ''decreased''
              else ''unchanged'')
         | _ \<Rightarrow> ''unchanged'')
      else ''unchanged'')"

text \<open>The update object that \<open>applyGlobalPricing\<close> builds for one selected product.\<close>

record PriceUpdate =
  upd_id :: string
  upd_new_price :: "real option"
  upd_pricing_action :: string
  upd_pricing_value :: real
  upd_price_status :: string

definition priceUpdate :: "string \<Rightarrow> real \<Rightarrow> Product \<Rightarrow> PriceUpdate" where
  "priceUpdate globalPricingAction globalPricingValue product =
     (let newPrice = calculateNewPrice (current_price product) globalPricingAction globalPricingValue
      in \<lparr> upd_id = id_p product,
           upd_new_price = newPrice,
           upd_pricing_action = globalPricingAction,
           upd_pricing_value = globalPricingValue,
           upd_price_status = classify (current_price product) newPrice \<rparr>)"

text \<open>
  \<open>Array.from(selectedProducts).map(...).filter(Boolean)\<close>: a selected id with no product in
  the list gives \<open>null\<close>, which the filter drops.
\<close>

definition priceUpdates :: "string \<Rightarrow> real \<Rightarrow> Product list \<Rightarrow> string list \<Rightarrow> PriceUpdate list" where
  "priceUpdates globalPricingAction globalPricingValue products selectedProducts =
     List.map_filter
       (\<lambda>productId. map_option (priceUpdate globalPricingAction globalPricingValue)
                        (find (\<lambda>p. id_p p = productId) products))
       selectedProducts"

section \<open>Article reconciler\<close>

text \<open>
  The part of \<open>fetchProducts\<close> after the two queries. \<open>articleMapping\<close> is a JavaScript
  \<open>Map\<close>, filled by \<open>forEach\<close> in the order of the rows; the body of the loop stores a row
  under its \<open>marketplace_article\<close> only when that field is truthy. A later \<open>set\<close> on the
  same key replaces the earlier entry.
\<close>

definition articleMapping_set :: "(string \<rightharpoonup> Product) \<Rightarrow> Product \<Rightarrow> (string \<rightharpoonup> Product)" where
  "articleMapping_set m mp =
     (if truthy_string (marketplace_article mp) then
        (case marketplace_article mp of
           Some k \<Rightarrow> m(k \<mapsto> mp)
         | None \<Rightarrow> m)
      else m)"

text \<open>
  \<open>marketplaceProducts\<close> is null when the second query failed (the code only logs a
  warning); the map is then left empty.
\<close>

definition articleMapping :: "Product list option \<Rightarrow> (string \<rightharpoonup> Product)" where
  "articleMapping marketplaceProducts =
     (case marketplaceProducts of
        None \<Rightarrow> Map.empty
      | Some mps \<Rightarrow> foldl articleMapping_set Map.empty mps)"

text \<open>
  The object literal of the \<open>map\<close> callback: the supplier row spread, then three fields
  overwritten. \<open>matched?.f\<close> is undefined when there is no match, and \<open>|| null\<close> turns every
  falsy value into null.
\<close>

definition enrichProduct :: "(string \<rightharpoonup> Product) \<Rightarrow> Product \<Rightarrow> Product" where
  "enrichProduct mapping supplierProduct =
     (let matchedMarketplaceProduct = mapping (supplier_article supplierProduct)
      in supplierProduct
           \<lparr> name_marketplace :=
               or_string (Option.bind matchedMarketplaceProduct name_marketplace) None,
             marketplace_article :=
               or_string (Option.bind matchedMarketplaceProduct marketplace_article) None,
             display_name :=
               or_string (Option.bind matchedMarketplaceProduct name_marketplace)
                 (Some (name_supplier supplierProduct)) \<rparr>)"

definition enrichedProducts :: "Product list \<Rightarrow> Product list option \<Rightarrow> Product list" where
  "enrichedProducts supplierProducts marketplaceProducts =
     map (enrichProduct (articleMapping marketplaceProducts)) supplierProducts"

section \<open>Display sort\<close>

text \<open>
  \<open>statusOrder\<close> is the object literal
  \<open>{ 'increased': 0, 'decreased': 1, 'unchanged': 2, 'missing': 3 }\<close>, and
  \<open>statusOrder[key]\<close> is a property read: it finds an own property of the literal, else a
  property that the literal inherits from \<open>Object.prototype\<close> (a function, or for
  \<open>__proto__\<close> the prototype object itself), else \<open>undefined\<close>. The value read is one of
  these three kinds.
\<close>

datatype property_value = Num int | Obj | Undefined

definition Object_prototype_keys :: "string list" where
  "Object_prototype_keys =
     [''constructor'', ''__defineGetter__'', ''__defineSetter__'', ''hasOwnProperty'',
      ''__lookupGetter__'', ''__lookupSetter__'', ''isPrototypeOf'', ''propertyIsEnumerable'',
      ''toString'', ''valueOf'', ''__proto__'', ''toLocaleString'']"

definition statusOrder :: "string \<Rightarrow> property_value" where
  "statusOrder key =
     (if key = ''increased'' then Num 0
      else if key = ''decreased'' then Num 1
      else if key = ''unchanged'' then Num 2
      else if key = ''missing'' then Num 3
      else if key \<in> set Object_prototype_keys then Obj
      else Undefined)"

text \<open>
  \<open>statusOrder[status] ?? 4\<close>: a null status is converted to the key \<open>"null"\<close>, and \<open>??\<close>
  replaces only \<open>undefined\<close> (and \<open>null\<close>) by 4; an inherited value passes through.
\<close>

definition order_of :: "string option \<Rightarrow> property_value" where
  "order_of s =
     (case statusOrder (case s of None \<Rightarrow> ''null'' | Some k \<Rightarrow> k) of
        Undefined \<Rightarrow> Num 4
      | v \<Rightarrow> v)"

text \<open>
  The comparator \<open>(a, b) => aOrder - bOrder\<close>. The difference of two numbers is a number;
  with a function or an object on either side it is NaN, here \<open>None\<close>.
\<close>

definition compareProducts :: "Product \<Rightarrow> Product \<Rightarrow> int option" where
  "compareProducts a b =
     (let aOrder = order_of (price_status a);
          bOrder = order_of (price_status b)
      in case (aOrder, bOrder) of
           (Num x, Num y) \<Rightarrow> Some (x - y)
         | _ \<Rightarrow> None)"

text \<open>
  \<open>Array.prototype.sort\<close> belongs to the runtime and is modelled from ECMAScript. The
  abstract operation SortCompare calls the comparator and replaces NaN by +0. A comparator
  is a consistent comparison function for the elements when it never returns NaN on them
  and its three relations (below zero, zero, above zero) are reflexive, symmetric and
  transitive as the standard lists them. For a consistent comparator the sort is stable
  and returns the elements in comparator order: the stable insertion sort below. Otherwise
  the standard leaves the order to the implementation, and the model returns \<open>None\<close>.
\<close>

definition SortCompare :: "('a \<Rightarrow> 'a \<Rightarrow> int option) \<Rightarrow> 'a \<Rightarrow> 'a \<Rightarrow> int" where
  "SortCompare cmp x y = (case cmp x y of None \<Rightarrow> 0 | Some v \<Rightarrow> v)"

definition consistent :: "('a \<Rightarrow> 'a \<Rightarrow> int option) \<Rightarrow> 'a list \<Rightarrow> bool" where
  "consistent cmp S =
     list_all (\<lambda>a. list_all (\<lambda>b. list_all (\<lambda>c.
         cmp a b \<noteq> None
         \<and> cmp a a = Some 0
         \<and> (cmp a b = Some 0 \<longrightarrow> cmp b a = Some 0)
         \<and> (cmp a b = Some 0 \<and> cmp b c = Some 0 \<longrightarrow> cmp a c = Some 0)
         \<and> (SortCompare cmp a b < 0 \<and> SortCompare cmp b c < 0 \<longrightarrow> SortCompare cmp a c < 0)
         \<and> (SortCompare cmp a b > 0 \<and> SortCompare cmp b c > 0 \<longrightarrow> SortCompare cmp a c > 0))
       S) S) S"

fun insert_by :: "('a \<Rightarrow> 'a \<Rightarrow> int) \<Rightarrow> 'a \<Rightarrow> 'a list \<Rightarrow> 'a list" where
  "insert_by cmp x [] = [x]"
| "insert_by cmp x (y # ys) = (if cmp x y \<le> 0 then x # y # ys else y # insert_by cmp x ys)"

fun insertion_sort :: "('a \<Rightarrow> 'a \<Rightarrow> int) \<Rightarrow> 'a list \<Rightarrow> 'a list" where
  "insertion_sort cmp [] = []"
| "insertion_sort cmp (x # xs) = insert_by cmp x (insertion_sort cmp xs)"

definition array_sort :: "('a \<Rightarrow> 'a \<Rightarrow> int option) \<Rightarrow> 'a list \<Rightarrow> 'a list option" where
  "array_sort cmp xs =
     (if consistent cmp xs then Some (insertion_sort (SortCompare cmp) xs) else None)"

definition sortedProducts :: "Product list \<Rightarrow> Product list option" where
  "sortedProducts enriched = array_sort compareProducts enriched"

text \<open>
  What \<open>fetchProducts\<close> hands to \<open>setProducts\<close>, given the results of its two queries
  (\<open>None\<close> when the order of the rows is left to the implementation).
\<close>

definition fetchedProducts :: "Product list \<Rightarrow> Product list option \<Rightarrow> Product list option" where
  "fetchedProducts supplierProducts marketplaceProducts =
     (if length supplierProducts = 0 then Some []
      else sortedProducts (enrichedProducts supplierProducts marketplaceProducts))"

text \<open>
  A status is plain when it is not the name of a property inherited from
  \<open>Object.prototype\<close>; the null status is plain.
\<close>

definition plain_status :: "string option \<Rightarrow> bool" where
  "plain_status s = (case s of None \<Rightarrow> True | Some k \<Rightarrow> k \<notin> set Object_prototype_keys)"

text \<open>
  The rank as the specification words it, for comparison with \<open>order_of\<close>: increased,
  decreased, unchanged and missing in this order, and any other status last.
\<close>

definition spec_rank :: "string option \<Rightarrow> int" where
  "spec_rank s =
     (if s = Some ''increased'' then 0
      else if s = Some ''decreased'' then 1
      else if s = Some ''unchanged'' then 2
      else if s = Some ''missing'' then 3
      else 4)"

text \<open>
  The lookup as the specification words it, for comparison with \<open>articleMapping\<close>: among
  the marketplace rows, the last one whose \<open>marketplace_article\<close> equals the given article;
  rows with a null or empty \<open>marketplace_article\<close> are never found.
\<close>

definition spec_matched :: "Product list option \<Rightarrow> string \<Rightarrow> Product option" where
  "spec_matched marketplaceProducts article =
     (case marketplaceProducts of
        None \<Rightarrow> None
      | Some mps \<Rightarrow>
          (if article = [] then None
           else find (\<lambda>mp. marketplace_article mp = Some article) (rev mps)))"

text \<open>Rows for the concrete scenarios: only the listed fields vary.\<close>

definition supplier_row :: "string \<Rightarrow> string \<Rightarrow> string \<Rightarrow> string option \<Rightarrow> Product" where
  "supplier_row i article name status =
     \<lparr> id_p = i, name_supplier = name, name_marketplace = None, supplier_article = article,
       marketplace_article = None, current_price = Some 1000, new_price = None,
       price_status = status, pricing_action = Some ''multiply'', pricing_value = Some 1,
       display_name = None \<rparr>"

definition marketplace_row :: "string \<Rightarrow> string option \<Rightarrow> string option \<Rightarrow> Product" where
  "marketplace_row i article name =
     \<lparr> id_p = i, name_supplier = ''unused'', name_marketplace = name, supplier_article = ''M'',
       marketplace_article = article, current_price = Some 1000, new_price = None,
       price_status = Some ''unchanged'', pricing_action = Some ''multiply'',
       pricing_value = Some 1, display_name = None \<rparr>"

section \<open>Batch sync orchestrator\<close>

text \<open>
  The component \<open>LoadingProgress\<close> (the later of its two versions, the one that does the
  work through \<open>loadSupplierData\<close> and \<open>uploadToMarketplace\<close>).
\<close>

datatype step_status = pending | processing | completed | error

record ProcessStep =
  id_step :: string
  name_step :: string
  status :: step_status
  progress :: real
  error_step :: "string option"

datatype run_type = download | upload

definition download_step_prefix :: string where
  "download_step_prefix =
     [CHR 0xD0, CHR 0x97, CHR 0xD0, CHR 0xB0, CHR 0xD0, CHR 0xB3, CHR 0xD1, CHR 0x80, CHR 0xD1,
      CHR 0x83, CHR 0xD0, CHR 0xB7, CHR 0xD0, CHR 0xBA, CHR 0xD0, CHR 0xB0, CHR 0x20, CHR 0xD1,
      CHR 0x86, CHR 0xD0, CHR 0xB5, CHR 0xD0, CHR 0xBD, CHR 0x20, CHR 0xD0, CHR 0xBE, CHR 0xD1,
      CHR 0x82, CHR 0x20, CHR 0xD0, CHR 0xBF, CHR 0xD0, CHR 0xBE, CHR 0xD1, CHR 0x81, CHR 0xD1,
      CHR 0x82, CHR 0xD0, CHR 0xB0, CHR 0xD0, CHR 0xB2, CHR 0xD1, CHR 0x89, CHR 0xD0, CHR 0xB8,
      CHR 0xD0, CHR 0xBA, CHR 0xD0, CHR 0xB0, CHR 0x20]"

definition upload_step_prefix :: string where
  "upload_step_prefix =
     [CHR 0xD0, CHR 0x92, CHR 0xD1, CHR 0x8B, CHR 0xD0, CHR 0xB3, CHR 0xD1, CHR 0x80, CHR 0xD1,
      CHR 0x83, CHR 0xD0, CHR 0xB7, CHR 0xD0, CHR 0xBA, CHR 0xD0, CHR 0xB0, CHR 0x20, CHR 0xD1,
      CHR 0x86, CHR 0xD0, CHR 0xB5, CHR 0xD0, CHR 0xBD, CHR 0x20, CHR 0xD0, CHR 0xB2, CHR 0x20,
      CHR 0xD0, CHR 0xBC, CHR 0xD0, CHR 0xB0, CHR 0xD1, CHR 0x80, CHR 0xD0, CHR 0xBA, CHR 0xD0,
      CHR 0xB5, CHR 0xD1, CHR 0x82, CHR 0xD0, CHR 0xBF, CHR 0xD0, CHR 0xBB, CHR 0xD0, CHR 0xB5,
      CHR 0xD0, CHR 0xB9, CHR 0xD1, CHR 0x81, CHR 0x20]"

text \<open>The steps that the effect builds before it calls \<open>startProcess\<close>.\<close>

definition initialSteps :: "run_type \<Rightarrow> string list \<Rightarrow> string list \<Rightarrow> ProcessStep list" where
  "initialSteps type suppliers marketplaces =
     (if type = download then
        map (\<lambda>supplier. \<lparr> id_step = supplier, name_step = download_step_prefix @ supplier,
                          status = pending, progress = 0, error_step = None \<rparr>) suppliers
      else
        map (\<lambda>marketplace. \<lparr> id_step = marketplace, name_step = upload_step_prefix @ marketplace,
                             status = pending, progress = 0, error_step = None \<rparr>) marketplaces)"

text \<open>
  Every update of the steps has the shape
  \<open>setSteps(prev => prev.map((step, index) => index === i ? {...step, ...} : step))\<close>.
\<close>

fun map_indexed :: "nat \<Rightarrow> (nat \<Rightarrow> 'a \<Rightarrow> 'b) \<Rightarrow> 'a list \<Rightarrow> 'b list" where
  "map_indexed k f [] = []"
| "map_indexed k f (x # xs) = f k x # map_indexed (Suc k) f xs"

definition updateStep :: "nat \<Rightarrow> (ProcessStep \<Rightarrow> ProcessStep) \<Rightarrow> ProcessStep list \<Rightarrow> ProcessStep list" where
  "updateStep i f prev = map_indexed 0 (\<lambda>index step. if index = i then f step else step) prev"

text \<open>
  The state of one run: the three \<open>useState\<close> cells of the component, the number of calls
  made to the \<open>onComplete\<close> prop, and the rows handed to the store's \<open>insert\<close>.
\<close>

record InsertRow =
  supplier_id :: string
  row_supplier_article :: string
  row_name_supplier :: string
  row_current_price :: real
  row_pricing_action :: string
  row_pricing_value :: real

record run_state =
  steps :: "ProcessStep list"
  overallProgress :: real
  isCompleted :: bool
  onComplete_calls :: nat
  inserted :: "InsertRow list"

text \<open>
  A thrown value is an \<open>Error\<close> object with its message, or anything else. The \<open>catch\<close>
  block records \<open>error instanceof Error ? error.message : "..."\<close>.
\<close>

datatype thrown = ErrorObject string | OtherValue

definition default_error_message :: string where
  "default_error_message =
     [CHR 0xD0, CHR 0x9F, CHR 0xD1, CHR 0x80, CHR 0xD0, CHR 0xBE, CHR 0xD0, CHR 0xB8, CHR 0xD0,
      CHR 0xB7, CHR 0xD0, CHR 0xBE, CHR 0xD1, CHR 0x88, CHR 0xD0, CHR 0xBB, CHR 0xD0, CHR 0xB0,
      CHR 0x20, CHR 0xD0, CHR 0xBE, CHR 0xD1, CHR 0x88, CHR 0xD0, CHR 0xB8, CHR 0xD0, CHR 0xB1,
      CHR 0xD0, CHR 0xBA, CHR 0xD0, CHR 0xB0]"

fun errorMessage :: "thrown \<Rightarrow> string" where
  "errorMessage (ErrorObject message) = message"
| "errorMessage OtherValue = default_error_message"

text \<open>
  The store is outside the program. Its answer to the \<open>j\<close>-th insert of step \<open>i\<close> is given
  by a response table: \<open>None\<close> for \<open>{ error: null }\<close>, \<open>Some message\<close> for an error object
  with that message. Each pair \<open>(i, j)\<close> is asked at most once in a run, so every behaviour
  of the store is some table.
\<close>

type_synonym store = "nat \<Rightarrow> nat \<Rightarrow> string option"

record SampleProduct =
  article :: string
  name_sample :: string
  price_sample :: real

definition sample_name_prefix :: string where
  "sample_name_prefix =
     [CHR 0xD0, CHR 0xA2, CHR 0xD0, CHR 0xBE, CHR 0xD0, CHR 0xB2, CHR 0xD0, CHR 0xB0, CHR 0xD1,
      CHR 0x80, CHR 0x20]"

definition sampleProducts :: "SampleProduct list" where
  "sampleProducts =
     [\<lparr> article = ''ART001'', name_sample = sample_name_prefix @ ''1'', price_sample = 1000 \<rparr>,
      \<lparr> article = ''ART002'', name_sample = sample_name_prefix @ ''2'', price_sample = 1500 \<rparr>,
      \<lparr> article = ''ART003'', name_sample = sample_name_prefix @ ''3'', price_sample = 2000 \<rparr>,
      \<lparr> article = ''ART004'', name_sample = sample_name_prefix @ ''4'', price_sample = 2500 \<rparr>,
      \<lparr> article = ''ART005'', name_sample = sample_name_prefix @ ''5'', price_sample = 3000 \<rparr>]"

definition insert_error_prefix :: string where
  "insert_error_prefix =
     [CHR 0xD0, CHR 0x9E, CHR 0xD1, CHR 0x88, CHR 0xD0, CHR 0xB8, CHR 0xD0, CHR 0xB1, CHR 0xD0,
      CHR 0xBA, CHR 0xD0, CHR 0xB0, CHR 0x20, CHR 0xD0, CHR 0xB4, CHR 0xD0, CHR 0xBE, CHR 0xD0,
      CHR 0xB1, CHR 0xD0, CHR 0xB0, CHR 0xD0, CHR 0xB2, CHR 0xD0, CHR 0xBB, CHR 0xD0, CHR 0xB5,
      CHR 0xD0, CHR 0xBD, CHR 0xD0, CHR 0xB8, CHR 0xD1, CHR 0x8F, CHR 0x20, CHR 0xD1, CHR 0x82,
      CHR 0xD0, CHR 0xBE, CHR 0xD0, CHR 0xB2, CHR 0xD0, CHR 0xB0, CHR 0xD1, CHR 0x80, CHR 0xD0,
      CHR 0xB0, CHR 0x20]"

text \<open>
  The loop of \<open>loadSupplierData\<close>, from index \<open>j\<close> over the products still to insert: set
  the step's progress, insert the row, and throw on the first error the store reports.
\<close>

fun loadLoop ::
  "store \<Rightarrow> string \<Rightarrow> nat \<Rightarrow> nat \<Rightarrow> SampleProduct list \<Rightarrow> run_state \<Rightarrow> thrown option \<times> run_state"
where
  "loadLoop db supplierId stepIndex j [] st = (None, st)"
| "loadLoop db supplierId stepIndex j (product # rest) st =
     (let progress' = (real (j + 1) / real (length sampleProducts)) * 100;
          st1 = st\<lparr>steps := updateStep stepIndex (\<lambda>step. step\<lparr>progress := progress'\<rparr>) (steps st)\<rparr>;
          row = \<lparr> supplier_id = supplierId,
                  row_supplier_article = article product,
                  row_name_supplier = name_sample product,
                  row_current_price = price_sample product,
                  row_pricing_action = ''multiply'',
                  row_pricing_value = 1 \<rparr>
      in case db stepIndex j of
           Some message \<Rightarrow>
             (Some (ErrorObject (insert_error_prefix @ name_sample product @ '': '' @ message)), st1)
         | None \<Rightarrow>
             loadLoop db supplierId stepIndex (j + 1) rest (st1\<lparr>inserted := inserted st1 @ [row]\<rparr>))"

definition loadSupplierData :: "store \<Rightarrow> string \<Rightarrow> nat \<Rightarrow> run_state \<Rightarrow> thrown option \<times> run_state" where
  "loadSupplierData db supplierId stepIndex st = loadLoop db supplierId stepIndex 0 sampleProducts st"

text \<open>\<open>uploadToMarketplace\<close>: \<open>for (let j = 0; j <= 100; j += 20)\<close>; it never throws.\<close>

function uploadLoop :: "nat \<Rightarrow> nat \<Rightarrow> run_state \<Rightarrow> run_state" where
  "uploadLoop stepIndex j st =
     (if j \<le> 100 then
        uploadLoop stepIndex (j + 20)
          (st\<lparr>steps := updateStep stepIndex (\<lambda>step. step\<lparr>progress := real j\<rparr>) (steps st)\<rparr>)
      else st)"
  by pat_completeness auto
termination
  by (relation "measure (\<lambda>(stepIndex, j, st). 101 - j)") auto

declare uploadLoop.simps [simp del]

definition uploadToMarketplace :: "string \<Rightarrow> nat \<Rightarrow> run_state \<Rightarrow> thrown option \<times> run_state" where
  "uploadToMarketplace marketplaceId stepIndex st = (None, uploadLoop stepIndex 0 st)"

text \<open>One iteration of the \<open>for\<close> loop of \<open>startProcess\<close>, with its \<open>try\<close> and \<open>catch\<close>.\<close>

definition processStep :: "run_type \<Rightarrow> store \<Rightarrow> ProcessStep list \<Rightarrow> nat \<Rightarrow> run_state \<Rightarrow> run_state" where
  "processStep type db initial i st =
     (let currentStep = initial ! i;
          st1 = st\<lparr>steps := updateStep i (\<lambda>step. step\<lparr>status := processing\<rparr>) (steps st)\<rparr>;
          (caught, st2) =
            (if type = download then loadSupplierData db (id_step currentStep) i st1
             else uploadToMarketplace (id_step currentStep) i st1);
          st3 =
            (case caught of
               None \<Rightarrow>
                 st2\<lparr>steps := updateStep i
                   (\<lambda>step. step\<lparr>status := completed, progress := 100\<rparr>) (steps st2)\<rparr>
             | Some e \<Rightarrow>
                 st2\<lparr>steps := updateStep i
                   (\<lambda>step. step\<lparr>status := error, progress := 100,
                                error_step := Some (errorMessage e)\<rparr>) (steps st2)\<rparr>)
      in st3\<lparr>overallProgress := (real (i + 1) / real (length initial)) * 100\<rparr>)"

text \<open>
  The state when the first \<open>k\<close> iterations are over; the loop reads \<open>initialSteps[i]\<close> only
  for \<open>i < initialSteps.length\<close>.
\<close>

definition stateAfter :: "run_type \<Rightarrow> store \<Rightarrow> ProcessStep list \<Rightarrow> nat \<Rightarrow> run_state \<Rightarrow> run_state" where
  "stateAfter type db initial k st = fold (processStep type db initial) [0..<k] st"

text \<open>
  \<open>startProcess\<close>: the whole loop, then \<open>setIsCompleted(true)\<close> and \<open>onComplete?.()\<close>; the
  flag \<open>onComplete\<close> says whether the prop was passed.
\<close>

definition startProcess :: "run_type \<Rightarrow> store \<Rightarrow> bool \<Rightarrow> ProcessStep list \<Rightarrow> run_state \<Rightarrow> run_state" where
  "startProcess type db onComplete initial st =
     (let st' = stateAfter type db initial (length initial) st
      in st'\<lparr>isCompleted := True,
             onComplete_calls := onComplete_calls st' + (if onComplete then 1 else 0)\<rparr>)"

text \<open>The effect of the component: \<open>setSteps(initialSteps); startProcess(initialSteps)\<close>.\<close>

definition LoadingProgress :: "run_type \<Rightarrow> string list \<Rightarrow> string list \<Rightarrow> store \<Rightarrow> bool \<Rightarrow> run_state" where
  "LoadingProgress type suppliers marketplaces db onComplete =
     (let initial = initialSteps type suppliers marketplaces
      in startProcess type db onComplete initial
           \<lparr> steps = initial, overallProgress = 0, isCompleted = False,
             onComplete_calls = 0, inserted = [] \<rparr>)"

text \<open>
  The state of the same run when its first \<open>k\<close> steps are over, and the two notions the
  properties speak of: a step is terminal when it is completed or in error, and the work
  of step \<open>i\<close> throws when the store reports an error for one of its inserts (an upload
  step runs no operation that can fail).
\<close>

definition LoadingProgress_after :: "run_type \<Rightarrow> string list \<Rightarrow> string list \<Rightarrow> store \<Rightarrow> nat \<Rightarrow> run_state" where
  "LoadingProgress_after type suppliers marketplaces db k =
     (let initial = initialSteps type suppliers marketplaces
      in stateAfter type db initial k
           \<lparr> steps = initial, overallProgress = 0, isCompleted = False,
             onComplete_calls = 0, inserted = [] \<rparr>)"

definition terminal :: "ProcessStep \<Rightarrow> bool" where
  "terminal step = (status step = completed \<or> status step = error)"

definition stepThrows :: "run_type \<Rightarrow> store \<Rightarrow> nat \<Rightarrow> bool" where
  "stepThrows type db i =
     (type = download \<and> list_ex (\<lambda>j. db i j \<noteq> None) [0..<length sampleProducts])"

section \<open>Sandbox quota guard\<close>

text \<open>
  The state cells of \<open>SandboxPage\<close> and its two handlers. \<open>testRequests\<close> starts as
  \<open>{ used: 0, max: 100 }\<close>; the counter is a natural number, since it starts at 0 and is only
  ever incremented or reset.
\<close>

record TestRequests =
  used :: nat
  max_requests :: nat

record SandboxPage_state =
  testing :: bool
  showProgress :: bool
  testType :: run_type
  testRequests :: TestRequests
  toasts :: "toast list"

definition SandboxPage_initial :: SandboxPage_state where
  "SandboxPage_initial =
     \<lparr> testing = False, showProgress = False, testType = download,
       testRequests = \<lparr> used = 0, max_requests = 100 \<rparr>, toasts = [] \<rparr>"

definition toast_limit_title :: string where
  "toast_limit_title =
     [CHR 0xD0, CHR 0x9B, CHR 0xD0, CHR 0xB8, CHR 0xD0, CHR 0xBC, CHR 0xD0, CHR 0xB8, CHR 0xD1,
      CHR 0x82, CHR 0x20, CHR 0xD0, CHR 0xB8, CHR 0xD1, CHR 0x81, CHR 0xD1, CHR 0x87, CHR 0xD0,
      CHR 0xB5, CHR 0xD1, CHR 0x80, CHR 0xD0, CHR 0xBF, CHR 0xD0, CHR 0xB0, CHR 0xD0, CHR 0xBD]"

definition toast_limit_description :: string where
  "toast_limit_description =
     [CHR 0xD0, CHR 0x94, CHR 0xD0, CHR 0xBE, CHR 0xD1, CHR 0x81, CHR 0xD1, CHR 0x82, CHR 0xD0,
      CHR 0xB8, CHR 0xD0, CHR 0xB3, CHR 0xD0, CHR 0xBD, CHR 0xD1, CHR 0x83, CHR 0xD1, CHR 0x82,
      CHR 0x20, CHR 0xD0, CHR 0xBB, CHR 0xD0, CHR 0xB8, CHR 0xD0, CHR 0xBC, CHR 0xD0, CHR 0xB8,
      CHR 0xD1, CHR 0x82, CHR 0x20, CHR 0xD1, CHR 0x82, CHR 0xD0, CHR 0xB5, CHR 0xD1, CHR 0x81,
      CHR 0xD1, CHR 0x82, CHR 0xD0, CHR 0xBE, CHR 0xD0, CHR 0xB2, CHR 0xD1, CHR 0x8B, CHR 0xD1,
      CHR 0x85, CHR 0x20, CHR 0xD0, CHR 0xB7, CHR 0xD0, CHR 0xB0, CHR 0xD0, CHR 0xBF, CHR 0xD1,
      CHR 0x80, CHR 0xD0, CHR 0xBE, CHR 0xD1, CHR 0x81, CHR 0xD0, CHR 0xBE, CHR 0xD0, CHR 0xB2]"

definition toast_success_title :: string where
  "toast_success_title =
     [CHR 0xD0, CHR 0xA3, CHR 0xD1, CHR 0x81, CHR 0xD0, CHR 0xBF, CHR 0xD0, CHR 0xB5, CHR 0xD1,
      CHR 0x88, CHR 0xD0, CHR 0xBD, CHR 0xD0, CHR 0xBE]"

definition toast_reset_description :: string where
  "toast_reset_description =
     [CHR 0xD0, CHR 0xA1, CHR 0xD1, CHR 0x87, CHR 0xD0, CHR 0xB5, CHR 0xD1, CHR 0x82, CHR 0xD1,
      CHR 0x87, CHR 0xD0, CHR 0xB8, CHR 0xD0, CHR 0xBA, CHR 0x20, CHR 0xD1, CHR 0x82, CHR 0xD0,
      CHR 0xB5, CHR 0xD1, CHR 0x81, CHR 0xD1, CHR 0x82, CHR 0xD0, CHR 0xBE, CHR 0xD0, CHR 0xB2,
      CHR 0xD1, CHR 0x8B, CHR 0xD1, CHR 0x85, CHR 0x20, CHR 0xD0, CHR 0xB7, CHR 0xD0, CHR 0xB0,
      CHR 0xD0, CHR 0xBF, CHR 0xD1, CHR 0x80, CHR 0xD0, CHR 0xBE, CHR 0xD1, CHR 0x81, CHR 0xD0,
      CHR 0xBE, CHR 0xD0, CHR 0xB2, CHR 0x20, CHR 0xD1, CHR 0x81, CHR 0xD0, CHR 0xB1, CHR 0xD1,
      CHR 0x80, CHR 0xD0, CHR 0xBE, CHR 0xD1, CHR 0x88, CHR 0xD0, CHR 0xB5, CHR 0xD0, CHR 0xBD]"

definition toast_test_done_title :: string where
  "toast_test_done_title =
     [CHR 0xD0, CHR 0xA2, CHR 0xD0, CHR 0xB5, CHR 0xD1, CHR 0x81, CHR 0xD1, CHR 0x82, CHR 0x20,
      CHR 0xD0, CHR 0xB7, CHR 0xD0, CHR 0xB0, CHR 0xD0, CHR 0xB2, CHR 0xD0, CHR 0xB5, CHR 0xD1,
      CHR 0x80, CHR 0xD1, CHR 0x88, CHR 0xD0, CHR 0xB5, CHR 0xD0, CHR 0xBD]"

definition toast_test_done_description :: string where
  "toast_test_done_description =
     [CHR 0xD0, CHR 0xA2, CHR 0xD0, CHR 0xB5, CHR 0xD1, CHR 0x81, CHR 0xD1, CHR 0x82, CHR 0xD0,
      CHR 0xB8, CHR 0xD1, CHR 0x80, CHR 0xD0, CHR 0xBE, CHR 0xD0, CHR 0xB2, CHR 0xD0, CHR 0xB0,
      CHR 0xD0, CHR 0xBD, CHR 0xD0, CHR 0xB8, CHR 0xD0, CHR 0xB5, CHR 0x20, CHR ''A'', CHR ''P'',
      CHR ''I'', CHR 0x20, CHR 0xD0, CHR 0xBF, CHR 0xD1, CHR 0x80, CHR 0xD0, CHR 0xBE, CHR 0xD1,
      CHR 0x88, CHR 0xD0, CHR 0xBB, CHR 0xD0, CHR 0xBE, CHR 0x20, CHR 0xD1, CHR 0x83, CHR 0xD1,
      CHR 0x81, CHR 0xD0, CHR 0xBF, CHR 0xD0, CHR 0xB5, CHR 0xD1, CHR 0x88, CHR 0xD0, CHR 0xBD,
      CHR 0xD0, CHR 0xBE]"

text \<open>
  \<open>runTest\<close>: the guard \<open>testRequests.used >= testRequests.max\<close> shows a toast and returns;
  otherwise the progress view is shown (which mounts \<open>LoadingProgress\<close> and so starts the
  run) and the counter is incremented once.
\<close>

definition runTest :: "run_type \<Rightarrow> SandboxPage_state \<Rightarrow> SandboxPage_state" where
  "runTest type s =
     (if used (testRequests s) \<ge> max_requests (testRequests s) then
        s\<lparr>toasts := toasts s @
             [\<lparr> toast_title = toast_limit_title, toast_description = toast_limit_description,
                destructive = True \<rparr>]\<rparr>
      else
        s\<lparr>testType := type, showProgress := True, testing := True,
          testRequests := (testRequests s)\<lparr>used := used (testRequests s) + 1\<rparr>\<rparr>)"

definition resetTestCounter :: "SandboxPage_state \<Rightarrow> SandboxPage_state" where
  "resetTestCounter s =
     s\<lparr>testRequests := (testRequests s)\<lparr>used := 0\<rparr>,
       toasts := toasts s @
         [\<lparr> toast_title = toast_success_title, toast_description = toast_reset_description,
            destructive = False \<rparr>]\<rparr>"

text \<open>The \<open>onCancel\<close> and \<open>onComplete\<close> props that the page passes to \<open>LoadingProgress\<close>.\<close>

definition sandbox_onCancel :: "SandboxPage_state \<Rightarrow> SandboxPage_state" where
  "sandbox_onCancel s = s\<lparr>showProgress := False, testing := False\<rparr>"

definition sandbox_onComplete :: "SandboxPage_state \<Rightarrow> SandboxPage_state" where
  "sandbox_onComplete s =
     s\<lparr>showProgress := False, testing := False,
       toasts := toasts s @
         [\<lparr> toast_title = toast_test_done_title, toast_description = toast_test_done_description,
            destructive = False \<rparr>]\<rparr>"

text \<open>Any sequence of the page's events, applied in order.\<close>

datatype sandbox_event = RunTest run_type | ResetTestCounter | OnCancel | OnComplete

fun sandbox_step :: "SandboxPage_state \<Rightarrow> sandbox_event \<Rightarrow> SandboxPage_state" where
  "sandbox_step s (RunTest type) = runTest type s"
| "sandbox_step s ResetTestCounter = resetTestCounter s"
| "sandbox_step s OnCancel = sandbox_onCancel s"
| "sandbox_step s OnComplete = sandbox_onComplete s"

definition sandbox_run :: "SandboxPage_state \<Rightarrow> sandbox_event list \<Rightarrow> SandboxPage_state" where
  "sandbox_run s events = foldl sandbox_step s events"

text \<open>
  The guard's verdict as the specification names it: a request is denied when it leaves
  everything but the toasts as it was, and allowed when it shows the progress view.
\<close>

definition denied :: "run_type \<Rightarrow> SandboxPage_state \<Rightarrow> bool" where
  "denied type s =
     (runTest type s =
        s\<lparr>toasts := toasts s @
             [\<lparr> toast_title = toast_limit_title, toast_description = toast_limit_description,
                destructive = True \<rparr>]\<rparr>)"

section \<open>Marketplace adapter\<close>

text \<open>
  \<open>ProductSchema\<close> and \<open>addProduct\<close> of \<open>kaspi-api.ts\<close>. The parameter of \<open>addProduct\<close> has the
  TypeScript type \<open>Product\<close> inferred from the schema, so every field has its declared type
  and each attribute is a pair of a code and a value.
\<close>

record Image =
  url :: string

record AttributeValue =
  code :: string
  attr_value :: string

record ProductPayload =
  sku :: string
  title :: string
  brand :: string
  category :: string
  description :: string
  images :: "Image list"
  attributes :: "AttributeValue list"

datatype path_element = Key string | Index nat

record ZodIssue =
  issue_path :: "path_element list"
  issue_message :: string

definition msg_sku :: string where
  "msg_sku =
     [CHR ''S'', CHR ''K'', CHR ''U'', CHR 0x20, CHR 0xD0, CHR 0xBE, CHR 0xD0, CHR 0xB1,
      CHR 0xD1, CHR 0x8F, CHR 0xD0, CHR 0xB7, CHR 0xD0, CHR 0xB0, CHR 0xD1, CHR 0x82, CHR 0xD0,
      CHR 0xB5, CHR 0xD0, CHR 0xBB, CHR 0xD0, CHR 0xB5, CHR 0xD0, CHR 0xBD]"

definition msg_title :: string where
  "msg_title =
     [CHR 0xD0, CHR 0x9D, CHR 0xD0, CHR 0xB0, CHR 0xD0, CHR 0xB7, CHR 0xD0, CHR 0xB2, CHR 0xD0,
      CHR 0xB0, CHR 0xD0, CHR 0xBD, CHR 0xD0, CHR 0xB8, CHR 0xD0, CHR 0xB5, CHR 0x20, CHR 0xD1,
      CHR 0x82, CHR 0xD0, CHR 0xBE, CHR 0xD0, CHR 0xB2, CHR 0xD0, CHR 0xB0, CHR 0xD1, CHR 0x80,
      CHR 0xD0, CHR 0xB0, CHR 0x20, CHR 0xD0, CHR 0xBE, CHR 0xD0, CHR 0xB1, CHR 0xD1, CHR 0x8F,
      CHR 0xD0, CHR 0xB7, CHR 0xD0, CHR 0xB0, CHR 0xD1, CHR 0x82, CHR 0xD0, CHR 0xB5, CHR 0xD0,
      CHR 0xBB, CHR 0xD1, CHR 0x8C, CHR 0xD0, CHR 0xBD, CHR 0xD0, CHR 0xBE]"

definition msg_brand :: string where
  "msg_brand =
     [CHR 0xD0, CHR 0x91, CHR 0xD1, CHR 0x80, CHR 0xD0, CHR 0xB5, CHR 0xD0, CHR 0xBD, CHR 0xD0,
      CHR 0xB4, CHR 0x20, CHR 0xD0, CHR 0xBE, CHR 0xD0, CHR 0xB1, CHR 0xD1, CHR 0x8F, CHR 0xD0,
      CHR 0xB7, CHR 0xD0, CHR 0xB0, CHR 0xD1, CHR 0x82, CHR 0xD0, CHR 0xB5, CHR 0xD0, CHR 0xBB,
      CHR 0xD0, CHR 0xB5, CHR 0xD0, CHR 0xBD]"

definition msg_category :: string where
  "msg_category =
     [CHR 0xD0, CHR 0x9A, CHR 0xD0, CHR 0xB0, CHR 0xD1, CHR 0x82, CHR 0xD0, CHR 0xB5, CHR 0xD0,
      CHR 0xB3, CHR 0xD0, CHR 0xBE, CHR 0xD1, CHR 0x80, CHR 0xD0, CHR 0xB8, CHR 0xD1, CHR 0x8F,
      CHR 0x20, CHR 0xD0, CHR 0xBE, CHR 0xD0, CHR 0xB1, CHR 0xD1, CHR 0x8F, CHR 0xD0, CHR 0xB7,
      CHR 0xD0, CHR 0xB0, CHR 0xD1, CHR 0x82, CHR 0xD0, CHR 0xB5, CHR 0xD0, CHR 0xBB, CHR 0xD1,
      CHR 0x8C, CHR 0xD0, CHR 0xBD, CHR 0xD0, CHR 0xB0]"

definition msg_description :: string where
  "msg_description =
     [CHR 0xD0, CHR 0x9E, CHR 0xD0, CHR 0xBF, CHR 0xD0, CHR 0xB8, CHR 0xD1, CHR 0x81, CHR 0xD0,
      CHR 0xB0, CHR 0xD0, CHR 0xBD, CHR 0xD0, CHR 0xB8, CHR 0xD0, CHR 0xB5, CHR 0x20, CHR 0xD0,
      CHR 0xBE, CHR 0xD0, CHR 0xB1, CHR 0xD1, CHR 0x8F, CHR 0xD0, CHR 0xB7, CHR 0xD0, CHR 0xB0,
      CHR 0xD1, CHR 0x82, CHR 0xD0, CHR 0xB5, CHR 0xD0, CHR 0xBB, CHR 0xD1, CHR 0x8C, CHR 0xD0,
      CHR 0xBD, CHR 0xD0, CHR 0xBE]"

definition msg_image_url :: string where
  "msg_image_url =
     [CHR 0xD0, CHR 0x9D, CHR 0xD0, CHR 0xB5, CHR 0xD0, CHR 0xBA, CHR 0xD0, CHR 0xBE, CHR 0xD1,
      CHR 0x80, CHR 0xD1, CHR 0x80, CHR 0xD0, CHR 0xB5, CHR 0xD0, CHR 0xBA, CHR 0xD1, CHR 0x82,
      CHR 0xD0, CHR 0xBD, CHR 0xD1, CHR 0x8B, CHR 0xD0, CHR 0xB9, CHR 0x20, CHR ''U'', CHR ''R'',
      CHR ''L'', CHR 0x20, CHR 0xD0, CHR 0xB8, CHR 0xD0, CHR 0xB7, CHR 0xD0, CHR 0xBE, CHR 0xD0,
      CHR 0xB1, CHR 0xD1, CHR 0x80, CHR 0xD0, CHR 0xB0, CHR 0xD0, CHR 0xB6, CHR 0xD0, CHR 0xB5,
      CHR 0xD0, CHR 0xBD, CHR 0xD0, CHR 0xB8, CHR 0xD1, CHR 0x8F]"

text \<open>\<open>z.string().min(1, message)\<close> on the field named \<open>key\<close>.\<close>

definition min1 :: "string \<Rightarrow> string \<Rightarrow> string \<Rightarrow> ZodIssue list" where
  "min1 key message v =
     (if length v < 1 then [\<lparr> issue_path = [Key key], issue_message = message \<rparr>] else [])"

text \<open>
  \<open>z.string().url(message)\<close> asks the runtime's URL parser, which is not part of the
  repository: \<open>validUrl\<close> stands for it. The array schemas carry no length constraint.
\<close>

definition image_issues :: "(string \<Rightarrow> bool) \<Rightarrow> nat \<Rightarrow> Image \<Rightarrow> ZodIssue list" where
  "image_issues validUrl index img =
     (if validUrl (url img) then []
      else [\<lparr> issue_path = [Key ''images'', Index index, Key ''url''],
              issue_message = msg_image_url \<rparr>])"

definition ProductSchema_issues :: "(string \<Rightarrow> bool) \<Rightarrow> ProductPayload \<Rightarrow> ZodIssue list" where
  "ProductSchema_issues validUrl product =
     min1 ''sku'' msg_sku (sku product)
     @ min1 ''title'' msg_title (title product)
     @ min1 ''brand'' msg_brand (brand product)
     @ min1 ''category'' msg_category (category product)
     @ min1 ''description'' msg_description (description product)
     @ concat (map_indexed 0 (image_issues validUrl) (images product))"

text \<open>\<open>ProductSchema.parse\<close>: the validated value, or a thrown \<open>ZodError\<close> with the issues.\<close>

definition ProductSchema_parse :: "(string \<Rightarrow> bool) \<Rightarrow> ProductPayload \<Rightarrow> ZodIssue list + ProductPayload" where
  "ProductSchema_parse validUrl product =
     (let issues = ProductSchema_issues validUrl product
      in if length issues = 0 then Inr product else Inl issues)"

text \<open>
  The network. A request is what \<open>makeRequest\<close> hands to \<open>fetch\<close>; the remote side answers
  with a response or the call rejects. \<open>fetch\<close> is a parameter of the model, and every
  function returns the list of requests it made next to its result.
\<close>

record Request =
  request_url :: string
  request_method :: string
  request_headers :: "(string \<times> string) list"
  request_body :: "ProductPayload option"

record UploadResult =
  uploadCode :: string
  upload_status :: string

record Response =
  ok :: bool
  response_status :: nat
  response_text :: string
  response_json :: UploadResult

datatype fetch_result = Rejected string | Responded Response

datatype adapter_error = ZodError "ZodIssue list" | Error string

definition baseUrl :: string where
  "baseUrl = ''https://kaspi.kz/shop/api/v2''"

definition makeRequest ::
  "string \<Rightarrow> (Request \<Rightarrow> fetch_result) \<Rightarrow> string \<Rightarrow> string \<Rightarrow> ProductPayload option
     \<Rightarrow> (adapter_error + UploadResult) \<times> Request list"
where
  "makeRequest authToken fetch endpoint method body =
     (let request =
            \<lparr> request_url = baseUrl @ endpoint,
              request_method = method,
              request_headers =
                [(''X-Auth-Token'', authToken),
                 (''Content-Type'', ''application/vnd.api+json''),
                 (''Accept'', ''application/vnd.api+json'')],
              request_body = body \<rparr>
      in case fetch request of
           Rejected reason \<Rightarrow> (Inl (Error reason), [request])
         | Responded response \<Rightarrow>
             (if \<not> ok response then
                (Inl (Error (''Kaspi API Error '' @ nat_to_string (response_status response)
                              @ '': '' @ response_text response)), [request])
              else (Inr (response_json response), [request])))"

definition addProduct ::
  "string \<Rightarrow> (string \<Rightarrow> bool) \<Rightarrow> (Request \<Rightarrow> fetch_result) \<Rightarrow> ProductPayload
     \<Rightarrow> (adapter_error + UploadResult) \<times> Request list"
where
  "addProduct authToken validUrl fetch product =
     (case ProductSchema_parse validUrl product of
        Inl issues \<Rightarrow> (Inl (ZodError issues), [])
      | Inr validatedProduct \<Rightarrow>
          makeRequest authToken fetch ''/goods'' ''POST'' (Some validatedProduct))"

text \<open>Concrete collaborators for the scenarios: a URL test and a remote side that accepts.\<close>

definition https_only :: "string \<Rightarrow> bool" where
  "https_only u = (take 8 u = ''https://'' \<and> 8 < length u)"

definition accepting :: "Request \<Rightarrow> fetch_result" where
  "accepting request =
     Responded \<lparr> ok = True, response_status = 200, response_text = '''',
                 response_json = \<lparr> uploadCode = ''U1'', upload_status = ''UPLOADED'' \<rparr> \<rparr>"

definition phone_payload :: ProductPayload where
  "phone_payload =
     \<lparr> sku = ''SKU-1'', title = ''Phone'', brand = ''Acme'', category = ''phones'',
       description = ''A phone'', images = [\<lparr> url = ''https://example.com/image.jpg'' \<rparr>],
       attributes = [\<lparr> code = ''color'', attr_value = ''black'' \<rparr>] \<rparr>"

section \<open>Control panel and price update review\<close>

text \<open>
  \<open>ControlPanel\<close> and the \<open>PriceUpdateModal\<close> it renders. The panel has two views: while
  \<open>showProgress\<close> holds it renders only \<open>LoadingProgress\<close> (a run is on screen, of the kind
  \<open>progressType\<close>); otherwise it renders the main view, with the buttons and the modal,
  which is open when \<open>showPriceUpdateModal\<close> holds. The state below holds the cells that the
  handlers write, and the \<open>products\<close> cell of the modal (\<open>None\<close> when the order of its rows
  is left to the implementation of the sort).
\<close>

record AutomationSettings =
  auto_mode_enabled :: bool
  sync_interval_minutes :: nat

record ControlPanel_state =
  selectedSuppliers :: "string list"
  selectedMarketplaces :: "string list"
  automationSettings :: AutomationSettings
  showProgress_cp :: bool
  progressType :: run_type
  showPriceUpdateModal :: bool
  toasts_cp :: "toast list"
  modal_products :: "Product list option"

text \<open>
  The two queries of \<open>fetchProducts\<close> go to the store, which is outside the program: the
  rows of the given suppliers (\<open>None\<close> when the query reports an error), and the rows with a
  marketplace whose \<open>marketplace_article\<close> is among the given articles (\<open>None\<close> when the query
  gives no data).
\<close>

record product_queries =
  supplier_query :: "string list \<Rightarrow> Product list option"
  marketplace_query :: "string list \<Rightarrow> Product list option"

text \<open>\<open>[...new Set(xs)]\<close>: the distinct elements, in the order of their first occurrence.\<close>

definition unique :: "'a list \<Rightarrow> 'a list" where
  "unique xs = rev (remdups (rev xs))"

text \<open>
  \<open>fetchProducts\<close>, as a function of the previous \<open>products\<close>: an error of the first query
  is thrown and caught, which leaves the products as they were.
\<close>

definition fetchProducts :: "product_queries \<Rightarrow> string list \<Rightarrow> Product list option \<Rightarrow> Product list option" where
  "fetchProducts store supplierIds products =
     (case supplier_query store supplierIds of
        None \<Rightarrow> products
      | Some supplierProducts \<Rightarrow>
          (let supplierArticles = unique (map supplier_article supplierProducts)
           in fetchedProducts supplierProducts (marketplace_query store supplierArticles)))"

definition toast_warning_title :: string where
  "toast_warning_title =
     [CHR 0xD0, CHR 0x9F, CHR 0xD1, CHR 0x80, CHR 0xD0, CHR 0xB5, CHR 0xD0, CHR 0xB4, CHR 0xD1,
      CHR 0x83, CHR 0xD0, CHR 0xBF, CHR 0xD1, CHR 0x80, CHR 0xD0, CHR 0xB5, CHR 0xD0, CHR 0xB6,
      CHR 0xD0, CHR 0xB4, CHR 0xD0, CHR 0xB5, CHR 0xD0, CHR 0xBD, CHR 0xD0, CHR 0xB8, CHR 0xD0,
      CHR 0xB5]"

definition toast_choose_supplier :: string where
  "toast_choose_supplier =
     [CHR 0xD0, CHR 0x92, CHR 0xD1, CHR 0x8B, CHR 0xD0, CHR 0xB1, CHR 0xD0, CHR 0xB5, CHR 0xD1,
      CHR 0x80, CHR 0xD0, CHR 0xB8, CHR 0xD1, CHR 0x82, CHR 0xD0, CHR 0xB5, CHR 0x20, CHR 0xD1,
      CHR 0x85, CHR 0xD0, CHR 0xBE, CHR 0xD1, CHR 0x82, CHR 0xD1, CHR 0x8F, CHR 0x20, CHR 0xD0,
      CHR 0xB1, CHR 0xD1, CHR 0x8B, CHR 0x20, CHR 0xD0, CHR 0xBE, CHR 0xD0, CHR 0xB4, CHR 0xD0,
      CHR 0xBD, CHR 0xD0, CHR 0xBE, CHR 0xD0, CHR 0xB3, CHR 0xD0, CHR 0xBE, CHR 0x20, CHR 0xD0,
      CHR 0xBF, CHR 0xD0, CHR 0xBE, CHR 0xD1, CHR 0x81, CHR 0xD1, CHR 0x82, CHR 0xD0, CHR 0xB0,
      CHR 0xD0, CHR 0xB2, CHR 0xD1, CHR 0x89, CHR 0xD0, CHR 0xB8, CHR 0xD0, CHR 0xBA, CHR 0xD0,
      CHR 0xB0]"

definition toast_choose_suppliers_upload :: string where
  "toast_choose_suppliers_upload =
     [CHR 0xD0, CHR 0x92, CHR 0xD1, CHR 0x8B, CHR 0xD0, CHR 0xB1, CHR 0xD0, CHR 0xB5, CHR 0xD1,
      CHR 0x80, CHR 0xD0, CHR 0xB8, CHR 0xD1, CHR 0x82, CHR 0xD0, CHR 0xB5, CHR 0x20, CHR 0xD0,
      CHR 0xBF, CHR 0xD0, CHR 0xBE, CHR 0xD1, CHR 0x81, CHR 0xD1, CHR 0x82, CHR 0xD0, CHR 0xB0,
      CHR 0xD0, CHR 0xB2, CHR 0xD1, CHR 0x89, CHR 0xD0, CHR 0xB8, CHR 0xD0, CHR 0xBA, CHR 0xD0,
      CHR 0xBE, CHR 0xD0, CHR 0xB2, CHR 0x20, CHR 0xD0, CHR 0xB4, CHR 0xD0, CHR 0xBB, CHR 0xD1,
      CHR 0x8F, CHR 0x20, CHR 0xD0, CHR 0xB2, CHR 0xD1, CHR 0x8B, CHR 0xD0, CHR 0xB3, CHR 0xD1,
      CHR 0x80, CHR 0xD1, CHR 0x83, CHR 0xD0, CHR 0xB7, CHR 0xD0, CHR 0xBA, CHR 0xD0, CHR 0xB8,
      CHR 0x20, CHR 0xD1, CHR 0x86, CHR 0xD0, CHR 0xB5, CHR 0xD0, CHR 0xBD]"

definition toast_done_title :: string where
  "toast_done_title =
     [CHR 0xD0, CHR 0x9E, CHR 0xD0, CHR 0xBF, CHR 0xD0, CHR 0xB5, CHR 0xD1, CHR 0x80, CHR 0xD0,
      CHR 0xB0, CHR 0xD1, CHR 0x86, CHR 0xD0, CHR 0xB8, CHR 0xD1, CHR 0x8F, CHR 0x20, CHR 0xD0,
      CHR 0xB7, CHR 0xD0, CHR 0xB0, CHR 0xD0, CHR 0xB2, CHR 0xD0, CHR 0xB5, CHR 0xD1, CHR 0x80,
      CHR 0xD1, CHR 0x88, CHR 0xD0, CHR 0xB5, CHR 0xD0, CHR 0xBD, CHR 0xD0, CHR 0xB0]"

definition toast_done_download :: string where
  "toast_done_download =
     [CHR 0xD0, CHR 0x97, CHR 0xD0, CHR 0xB0, CHR 0xD0, CHR 0xB3, CHR 0xD1, CHR 0x80, CHR 0xD1,
      CHR 0x83, CHR 0xD0, CHR 0xB7, CHR 0xD0, CHR 0xBA, CHR 0xD0, CHR 0xB0, CHR 0x20, CHR 0xD1,
      CHR 0x86, CHR 0xD0, CHR 0xB5, CHR 0xD0, CHR 0xBD, CHR 0x20, CHR 0xD0, CHR 0xBF, CHR 0xD1,
      CHR 0x80, CHR 0xD0, CHR 0xBE, CHR 0xD1, CHR 0x88, CHR 0xD0, CHR 0xBB, CHR 0xD0, CHR 0xB0,
      CHR 0x20, CHR 0xD1, CHR 0x83, CHR 0xD1, CHR 0x81, CHR 0xD0, CHR 0xBF, CHR 0xD0, CHR 0xB5,
      CHR 0xD1, CHR 0x88, CHR 0xD0, CHR 0xBD, CHR 0xD0, CHR 0xBE]"

definition toast_done_upload :: string where
  "toast_done_upload =
     [CHR 0xD0, CHR 0x92, CHR 0xD1, CHR 0x8B, CHR 0xD0, CHR 0xB3, CHR 0xD1, CHR 0x80, CHR 0xD1,
      CHR 0x83, CHR 0xD0, CHR 0xB7, CHR 0xD0, CHR 0xBA, CHR 0xD0, CHR 0xB0, CHR 0x20, CHR 0xD1,
      CHR 0x86, CHR 0xD0, CHR 0xB5, CHR 0xD0, CHR 0xBD, CHR 0x20, CHR 0xD0, CHR 0xBF, CHR 0xD1,
      CHR 0x80, CHR 0xD0, CHR 0xBE, CHR 0xD1, CHR 0x88, CHR 0xD0, CHR 0xBB, CHR 0xD0, CHR 0xB0,
      CHR 0x20, CHR 0xD1, CHR 0x83, CHR 0xD1, CHR 0x81, CHR 0xD0, CHR 0xBF, CHR 0xD0, CHR 0xB5,
      CHR 0xD1, CHR 0x88, CHR 0xD0, CHR 0xBD, CHR 0xD0, CHR 0xBE]"

definition handleLoadPrices :: "ControlPanel_state \<Rightarrow> ControlPanel_state" where
  "handleLoadPrices s =
     (if length (selectedSuppliers s) = 0 then
        s\<lparr>toasts_cp := toasts_cp s @
             [\<lparr> toast_title = toast_warning_title, toast_description = toast_choose_supplier,
                destructive = True \<rparr>]\<rparr>
      else s\<lparr>progressType := download, showProgress_cp := True\<rparr>)"

definition handleUploadPrices :: "ControlPanel_state \<Rightarrow> ControlPanel_state" where
  "handleUploadPrices s =
     (if length (selectedSuppliers s) = 0 then
        s\<lparr>toasts_cp := toasts_cp s @
             [\<lparr> toast_title = toast_warning_title,
                toast_description = toast_choose_suppliers_upload, destructive = True \<rparr>]\<rparr>
      else s\<lparr>progressType := upload, showPriceUpdateModal := True\<rparr>)"

definition handleStartUpload :: "string list \<Rightarrow> ControlPanel_state \<Rightarrow> ControlPanel_state" where
  "handleStartUpload selectedMarketplaceIds s =
     s\<lparr>selectedMarketplaces := selectedMarketplaceIds, progressType := upload,
       showProgress_cp := True\<rparr>"

text \<open>The \<open>onComplete\<close> prop that the panel passes to \<open>LoadingProgress\<close>.\<close>

definition ControlPanel_onComplete :: "ControlPanel_state \<Rightarrow> ControlPanel_state" where
  "ControlPanel_onComplete s =
     (let s1 = s\<lparr>showProgress_cp := False,
                 toasts_cp := toasts_cp s @
                   [\<lparr> toast_title = toast_done_title,
                      toast_description =
                        (if progressType s = download then toast_done_download
                         else toast_done_upload),
                      destructive = False \<rparr>]\<rparr>
      in if progressType s = download \<and> \<not> auto_mode_enabled (automationSettings s)
         then s1\<lparr>showPriceUpdateModal := True\<rparr>
         else s1)"

text \<open>
  The \<open>mode\<close> prop of the review modal, \<open>progressType === "upload" ? "upload" : "download"\<close>,
  and the condition under which an upload run is in progress.
\<close>

definition modal_mode :: "ControlPanel_state \<Rightarrow> run_type" where
  "modal_mode s = (if progressType s = upload then upload else download)"

definition upload_running :: "ControlPanel_state \<Rightarrow> bool" where
  "upload_running s = (showProgress_cp s \<and> progressType s = upload)"

text \<open>What is on screen: the main view, and in it the open modal.\<close>

definition main_view :: "ControlPanel_state \<Rightarrow> bool" where
  "main_view s = (\<not> showProgress_cp s)"

definition modal_visible :: "ControlPanel_state \<Rightarrow> bool" where
  "modal_visible s = (main_view s \<and> showPriceUpdateModal s)"

text \<open>The remaining handlers of the panel and of the modal.\<close>

definition handleSupplierSelect :: "string \<Rightarrow> bool \<Rightarrow> ControlPanel_state \<Rightarrow> ControlPanel_state" where
  "handleSupplierSelect supplierId checked s =
     s\<lparr>selectedSuppliers :=
         (if checked then selectedSuppliers s @ [supplierId]
          else filter (\<lambda>i. i \<noteq> supplierId) (selectedSuppliers s))\<rparr>"

definition handleMarketplaceSelect :: "string \<Rightarrow> bool \<Rightarrow> ControlPanel_state \<Rightarrow> ControlPanel_state" where
  "handleMarketplaceSelect marketplaceId checked s =
     s\<lparr>selectedMarketplaces :=
         (if checked then selectedMarketplaces s @ [marketplaceId]
          else filter (\<lambda>i. i \<noteq> marketplaceId) (selectedMarketplaces s))\<rparr>"

definition ControlPanel_onCancel :: "ControlPanel_state \<Rightarrow> ControlPanel_state" where
  "ControlPanel_onCancel s = s\<lparr>showProgress_cp := False\<rparr>"

definition onClose :: "ControlPanel_state \<Rightarrow> ControlPanel_state" where
  "onClose s = s\<lparr>showPriceUpdateModal := False\<rparr>"

definition toast_choose_marketplaces :: string where
  "toast_choose_marketplaces =
     [CHR 0xD0, CHR 0x92, CHR 0xD1, CHR 0x8B, CHR 0xD0, CHR 0xB1, CHR 0xD0, CHR 0xB5, CHR 0xD1,
      CHR 0x80, CHR 0xD0, CHR 0xB8, CHR 0xD1, CHR 0x82, CHR 0xD0, CHR 0xB5, CHR 0x20, CHR 0xD0,
      CHR 0xBC, CHR 0xD0, CHR 0xB0, CHR 0xD1, CHR 0x80, CHR 0xD0, CHR 0xBA, CHR 0xD0, CHR 0xB5,
      CHR 0xD1, CHR 0x82, CHR 0xD0, CHR 0xBF, CHR 0xD0, CHR 0xBB, CHR 0xD0, CHR 0xB5, CHR 0xD0,
      CHR 0xB9, CHR 0xD1, CHR 0x81, CHR 0xD1, CHR 0x8B, CHR 0x20, CHR 0xD0, CHR 0xB4, CHR 0xD0,
      CHR 0xBB, CHR 0xD1, CHR 0x8F, CHR 0x20, CHR 0xD0, CHR 0xB2, CHR 0xD1, CHR 0x8B, CHR 0xD0,
      CHR 0xB3, CHR 0xD1, CHR 0x80, CHR 0xD1, CHR 0x83, CHR 0xD0, CHR 0xB7, CHR 0xD0, CHR 0xBA,
      CHR 0xD0, CHR 0xB8]"

definition toast_choose_products :: string where
  "toast_choose_products =
     [CHR 0xD0, CHR 0x92, CHR 0xD1, CHR 0x8B, CHR 0xD0, CHR 0xB1, CHR 0xD0, CHR 0xB5, CHR 0xD1,
      CHR 0x80, CHR 0xD0, CHR 0xB8, CHR 0xD1, CHR 0x82, CHR 0xD0, CHR 0xB5, CHR 0x20, CHR 0xD1,
      CHR 0x82, CHR 0xD0, CHR 0xBE, CHR 0xD0, CHR 0xB2, CHR 0xD0, CHR 0xB0, CHR 0xD1, CHR 0x80,
      CHR 0xD1, CHR 0x8B, CHR 0x20, CHR 0xD0, CHR 0xB4, CHR 0xD0, CHR 0xBB, CHR 0xD1, CHR 0x8F,
      CHR 0x20, CHR 0xD0, CHR 0xB2, CHR 0xD1, CHR 0x8B, CHR 0xD0, CHR 0xB3, CHR 0xD1, CHR 0x80,
      CHR 0xD1, CHR 0x83, CHR 0xD0, CHR 0xB7, CHR 0xD0, CHR 0xBA, CHR 0xD0, CHR 0xB8]"

text \<open>
  \<open>handleUpload\<close> of the modal, with the modal's own two selections as arguments; its
  \<open>onUpload\<close> prop is \<open>handleStartUpload\<close>.
\<close>

definition handleUpload :: "string list \<Rightarrow> string list \<Rightarrow> ControlPanel_state \<Rightarrow> ControlPanel_state" where
  "handleUpload modalMarketplaces modalProducts s =
     (if length modalMarketplaces = 0 then
        s\<lparr>toasts_cp := toasts_cp s @
             [\<lparr> toast_title = toast_warning_title,
                toast_description = toast_choose_marketplaces, destructive = True \<rparr>]\<rparr>
      else if length modalProducts = 0 then
        s\<lparr>toasts_cp := toasts_cp s @
             [\<lparr> toast_title = toast_warning_title,
                toast_description = toast_choose_products, destructive = True \<rparr>]\<rparr>
      else onClose (handleStartUpload modalMarketplaces s))"

text \<open>
  The events of the panel. An event runs its handler only when the control that raises it
  is rendered: the buttons and checkboxes of the panel in the main view, the callbacks of
  \<open>LoadingProgress\<close> in the progress view, the modal's close button when the modal is
  open, and its upload button when it is open in upload mode.
\<close>

datatype panel_event =
    LoadPrices
  | UploadPrices
  | Complete
  | Cancel
  | CloseModal
  | ModalUpload "string list" "string list"
  | SelectSupplier string bool
  | SelectMarketplace string bool

fun panel_handler :: "ControlPanel_state \<Rightarrow> panel_event \<Rightarrow> ControlPanel_state" where
  "panel_handler s LoadPrices = (if main_view s then handleLoadPrices s else s)"
| "panel_handler s UploadPrices = (if main_view s then handleUploadPrices s else s)"
| "panel_handler s Complete = (if showProgress_cp s then ControlPanel_onComplete s else s)"
| "panel_handler s Cancel = (if showProgress_cp s then ControlPanel_onCancel s else s)"
| "panel_handler s CloseModal = (if modal_visible s then onClose s else s)"
| "panel_handler s (ModalUpload modalMarketplaces modalProducts) =
     (if modal_visible s \<and> modal_mode s = upload
      then handleUpload modalMarketplaces modalProducts s else s)"
| "panel_handler s (SelectSupplier supplierId checked) =
     (if main_view s then handleSupplierSelect supplierId checked s else s)"
| "panel_handler s (SelectMarketplace marketplaceId checked) =
     (if main_view s then handleMarketplaceSelect marketplaceId checked s else s)"

text \<open>
  The effect of the modal, \<open>if (isOpen && supplierIds.length > 0) fetchProducts()\<close> with the
  dependencies \<open>[isOpen, supplierIds]\<close>. The modal is mounted with the main view and loses
  its state with it. So after an event that leaves the state \<open>s\<close> for \<open>s'\<close>: in the progress
  view the products are the initial empty list, and so they are when the modal has just
  been mounted; the effect runs when the modal has just been mounted, when \<open>isOpen\<close> has
  changed, and when \<open>handleSupplierSelect\<close> has replaced the supplier selection.
\<close>

fun is_supplier_selection :: "panel_event \<Rightarrow> bool" where
  "is_supplier_selection (SelectSupplier supplierId checked) = True"
| "is_supplier_selection e = False"

definition modal_effect ::
  "product_queries \<Rightarrow> ControlPanel_state \<Rightarrow> panel_event \<Rightarrow> ControlPanel_state \<Rightarrow> ControlPanel_state"
where
  "modal_effect store s e s' =
     (if \<not> main_view s' then s'\<lparr>modal_products := Some []\<rparr>
      else
        (let mounted = \<not> main_view s;
             products = (if mounted then Some [] else modal_products s')
         in if (mounted \<or> showPriceUpdateModal s \<noteq> showPriceUpdateModal s'
                \<or> is_supplier_selection e)
               \<and> showPriceUpdateModal s' \<and> length (selectedSuppliers s') > 0
            then s'\<lparr>modal_products := fetchProducts store (selectedSuppliers s') products\<rparr>
            else s'\<lparr>modal_products := products\<rparr>))"

definition panel_step :: "product_queries \<Rightarrow> ControlPanel_state \<Rightarrow> panel_event \<Rightarrow> ControlPanel_state" where
  "panel_step store s e = modal_effect store s e (panel_handler s e)"

definition panel_run :: "product_queries \<Rightarrow> ControlPanel_state \<Rightarrow> panel_event list \<Rightarrow> ControlPanel_state" where
  "panel_run store s events = foldl (panel_step store) s events"


text \<open>
  A store and a panel for the concrete scenarios: two rows of the selected supplier, one
  of them matched by a marketplace row; the panel is in the main view with one supplier
  selected.
\<close>

definition example_queries :: product_queries where
  "example_queries =
     \<lparr> supplier_query = (\<lambda>supplierIds.
         Some [supplier_row ''s1'' ''A1'' ''X'' (Some ''unchanged''),
               supplier_row ''s2'' ''B2'' ''W'' (Some ''increased'')]),
       marketplace_query = (\<lambda>supplierArticles.
         Some [marketplace_row ''m1'' (Some ''A1'') (Some ''Y'')]) \<rparr>"

definition example_panel :: "bool \<Rightarrow> ControlPanel_state" where
  "example_panel auto_mode =
     \<lparr> selectedSuppliers = [''S1''], selectedMarketplaces = [],
       automationSettings = \<lparr> auto_mode_enabled = auto_mode, sync_interval_minutes = 60 \<rparr>,
       showProgress_cp = False, progressType = download, showPriceUpdateModal = False,
       toasts_cp = [], modal_products = Some [] \<rparr>"

section \<open>Price list export\<close>

text \<open>
  \<open>handleExportToFile\<close> of \<open>KaspiPriceListDialog.tsx\<close>. The price is integer-valued here
  (an amount in tenge), and \<open>price.toString()\<close> is then its decimal numeral. The result is the
  content of the downloaded file (the UTF-8 bytes of the blob), or nothing when the guard
  on an empty list returns early.
\<close>

record KaspiProduct =
  id_k :: string
  name :: string
  kaspiArticle :: string
  supplierArticle :: string
  price :: int

definition header_name :: string where
  "header_name =
     [CHR 0xD0, CHR 0x9D, CHR 0xD0, CHR 0xB0, CHR 0xD0, CHR 0xB8, CHR 0xD0, CHR 0xBC, CHR 0xD0,
      CHR 0xB5, CHR 0xD0, CHR 0xBD, CHR 0xD0, CHR 0xBE, CHR 0xD0, CHR 0xB2, CHR 0xD0, CHR 0xB0,
      CHR 0xD0, CHR 0xBD, CHR 0xD0, CHR 0xB8, CHR 0xD0, CHR 0xB5, CHR 0x20, CHR 0xD1, CHR 0x82,
      CHR 0xD0, CHR 0xBE, CHR 0xD0, CHR 0xB2, CHR 0xD0, CHR 0xB0, CHR 0xD1, CHR 0x80, CHR 0xD0,
      CHR 0xB0]"

definition header_kaspi_article :: string where
  "header_kaspi_article =
     [CHR 0xD0, CHR 0x90, CHR 0xD1, CHR 0x80, CHR 0xD1, CHR 0x82, CHR 0xD0, CHR 0xB8, CHR 0xD0,
      CHR 0xBA, CHR 0xD1, CHR 0x83, CHR 0xD0, CHR 0xBB, CHR 0x20, CHR 0xD0, CHR 0x9A, CHR 0xD0,
      CHR 0xB0, CHR 0xD1, CHR 0x81, CHR 0xD0, CHR 0xBF, CHR 0xD0, CHR 0xB8]"

definition header_supplier_article :: string where
  "header_supplier_article =
     [CHR 0xD0, CHR 0x90, CHR 0xD1, CHR 0x80, CHR 0xD1, CHR 0x82, CHR 0xD0, CHR 0xB8, CHR 0xD0,
      CHR 0xBA, CHR 0xD1, CHR 0x83, CHR 0xD0, CHR 0xBB, CHR 0x20, CHR 0xD0, CHR 0xBF, CHR 0xD0,
      CHR 0xBE, CHR 0xD1, CHR 0x81, CHR 0xD1, CHR 0x82, CHR 0xD0, CHR 0xB0, CHR 0xD0, CHR 0xB2,
      CHR 0xD1, CHR 0x89, CHR 0xD0, CHR 0xB8, CHR 0xD0, CHR 0xBA, CHR 0xD0, CHR 0xB0]"

definition header_price :: string where
  "header_price =
     [CHR 0xD0, CHR 0xA6, CHR 0xD0, CHR 0xB5, CHR 0xD0, CHR 0xBD, CHR 0xD0, CHR 0xB0]"

text \<open>The byte order mark U+FEFF, as encoded in the file.\<close>

definition bom :: string where
  "bom =
     [CHR 0xEF, CHR 0xBB, CHR 0xBF]"

text \<open>\<open>Array.prototype.join\<close> on strings.\<close>

fun join :: "string \<Rightarrow> string list \<Rightarrow> string" where
  "join sep [] = []"
| "join sep [x] = x"
| "join sep (x # y # ys) = x @ sep @ join sep (y # ys)"

definition headers :: "string list" where
  "headers = [header_name, header_kaspi_article, header_supplier_article, header_price]"

definition csvRow :: "KaspiProduct \<Rightarrow> string" where
  "csvRow p =
     join '';'' [[CHR 0x22] @ name p @ [CHR 0x22], kaspiArticle p, supplierArticle p,
                 int_to_string (price p)]"

definition csvContent :: "KaspiProduct list \<Rightarrow> string" where
  "csvContent products = join [CHR 0x0A] (join '';'' headers # map csvRow products)"

definition handleExportToFile :: "KaspiProduct list \<Rightarrow> string option" where
  "handleExportToFile products =
     (if length products = 0 then None else Some (bom @ csvContent products))"

text \<open>The lines of a text: its pieces between line feeds.\<close>

fun split_lines :: "string \<Rightarrow> string list" where
  "split_lines [] = [[]]"
| "split_lines (c # cs) =
     (if c = CHR 0x0A then [] # split_lines cs
      else (case split_lines cs of
              [] \<Rightarrow> [[c]]
            | l # ls \<Rightarrow> (c # l) # ls))"

section \<open>Properties of the batch sync orchestrator\<close>

lemma length_map_indexed: "length (map_indexed k f xs) = length xs"
  by (induction xs arbitrary: k) simp_all

lemma nth_map_indexed: "i < length xs \<Longrightarrow> map_indexed k f xs ! i = f (k + i) (xs ! i)"
proof (induction xs arbitrary: k i)
  case Nil
  then show ?case by simp
next
  case (Cons x xs)
  show ?case
  proof (cases i)
    case 0
    then show ?thesis by simp
  next
    case (Suc i')
    with Cons.prems have "i' < length xs" by simp
    from Cons.IH [OF this, of "Suc k"] Suc show ?thesis by simp
  qed
qed

lemma updateStep_list_update: "updateStep i f xs = xs[i := f (xs ! i)]"
  by (rule nth_equalityI)
     (simp_all add: updateStep_def length_map_indexed nth_map_indexed nth_list_update)

lemma loadLoop_steps:
  "\<exists>p. steps (snd (loadLoop db sid i j ps st)) = (steps st)[i := (steps st ! i)\<lparr>progress := p\<rparr>]"
proof (induction ps arbitrary: j st)
  case Nil
  show ?case by (rule exI [of _ "progress (steps st ! i)"]) simp
next
  case (Cons product rest)
  show ?case
  proof (cases "db i j")
    case (Some message)
    then show ?thesis
      by (auto simp: Let_def updateStep_list_update)
  next
    case None
    define st1 where "st1 = st\<lparr>steps := updateStep i (\<lambda>step. step\<lparr>progress := real (j + 1) / real (length sampleProducts) * 100\<rparr>) (steps st)\<rparr>"
    define row where "row = \<lparr> supplier_id = sid, row_supplier_article = article product,
                  row_name_supplier = name_sample product, row_current_price = price_sample product,
                  row_pricing_action = ''multiply'', row_pricing_value = 1 \<rparr>"
    have eq: "loadLoop db sid i j (product # rest) st = loadLoop db sid i (j + 1) rest (st1\<lparr>inserted := inserted st1 @ [row]\<rparr>)"
      using None by (simp add: Let_def st1_def row_def)
    obtain p where p: "steps (snd (loadLoop db sid i (j + 1) rest (st1\<lparr>inserted := inserted st1 @ [row]\<rparr>)))
        = (steps st1)[i := (steps st1 ! i)\<lparr>progress := p\<rparr>]"
      using Cons.IH [of "j + 1" "st1\<lparr>inserted := inserted st1 @ [row]\<rparr>"] by auto
    have "(steps st1)[i := (steps st1 ! i)\<lparr>progress := p\<rparr>] = (steps st)[i := (steps st ! i)\<lparr>progress := p\<rparr>]"
      by (cases "i < length (steps st)") (simp_all add: st1_def updateStep_list_update list_update_beyond)
    with p eq show ?thesis by auto
  qed
qed

lemma loadLoop_rest:
  "overallProgress (snd (loadLoop db sid i j ps st)) = overallProgress st
   \<and> isCompleted (snd (loadLoop db sid i j ps st)) = isCompleted st
   \<and> onComplete_calls (snd (loadLoop db sid i j ps st)) = onComplete_calls st"
  by (induction ps arbitrary: j st) (auto simp: Let_def split: option.splits)

lemma loadLoop_None:
  "fst (loadLoop db sid i j ps st) = None \<longleftrightarrow> (\<forall>j' < length ps. db i (j + j') = None)"
proof (induction ps arbitrary: j st)
  case Nil
  show ?case by simp
next
  case (Cons product rest)
  show ?case
  proof (cases "db i j")
    case (Some message)
    then show ?thesis by (auto simp: Let_def intro: exI [of _ 0])
  next
    case None
    have "(\<forall>j' < Suc (length rest). db i (j + j') = None) \<longleftrightarrow> (\<forall>j' < length rest. db i (Suc j + j') = None)"
      using None by (auto simp: All_less_Suc2)
    with None Cons.IH [of "j + 1"] show ?thesis by (simp add: Let_def)
  qed
qed

lemma loadLoop_message:
  "fst (loadLoop db sid i j ps st) = Some e \<Longrightarrow> errorMessage e \<noteq> []"
proof (induction ps arbitrary: j st)
  case Nil
  then show ?case by simp
next
  case (Cons product rest)
  have "insert_error_prefix \<noteq> []" by (simp add: insert_error_prefix_def)
  with Cons show ?case
    by (cases "db i j") (auto simp: Let_def)
qed

lemma uploadLoop_steps:
  "\<exists>p. steps (uploadLoop i j st) = (steps st)[i := (steps st ! i)\<lparr>progress := p\<rparr>]"
proof (induction i j st rule: uploadLoop.induct)
  case (1 i j st)
  show ?case
  proof (cases "j \<le> 100")
    case False
    have "uploadLoop i j st = st"
      using False by (subst uploadLoop.simps) simp
    then show ?thesis by (intro exI [of _ "progress (steps st ! i)"]) simp
  next
    case True
    define st1 where "st1 = st\<lparr>steps := updateStep i (\<lambda>step. step\<lparr>progress := real j\<rparr>) (steps st)\<rparr>"
    obtain p where p: "steps (uploadLoop i (j + 20) st1) = (steps st1)[i := (steps st1 ! i)\<lparr>progress := p\<rparr>]"
      using "1.IH" [OF True] unfolding st1_def by auto
    have "(steps st1)[i := (steps st1 ! i)\<lparr>progress := p\<rparr>] = (steps st)[i := (steps st ! i)\<lparr>progress := p\<rparr>]"
      by (cases "i < length (steps st)") (simp_all add: st1_def updateStep_list_update list_update_beyond)
    moreover have "uploadLoop i j st = uploadLoop i (j + 20) st1"
      using True by (subst uploadLoop.simps) (simp add: st1_def)
    ultimately show ?thesis using p by auto
  qed
qed

lemma uploadLoop_rest:
  "overallProgress (uploadLoop i j st) = overallProgress st
   \<and> isCompleted (uploadLoop i j st) = isCompleted st
   \<and> onComplete_calls (uploadLoop i j st) = onComplete_calls st"
proof (induction i j st rule: uploadLoop.induct)
  case (1 i j st)
  show ?case
  proof (cases "j \<le> 100")
    case False
    then show ?thesis by (subst (1 2 3) uploadLoop.simps) simp
  next
    case True
    with "1.IH" [OF True] show ?thesis by (subst (1 2 3) uploadLoop.simps) simp
  qed
qed


lemma stepThrows_download:
  "stepThrows download db i \<longleftrightarrow> fst (loadSupplierData db sid i st) \<noteq> None"
  by (auto simp: stepThrows_def loadSupplierData_def loadLoop_None list_ex_iff)

lemma processStep_steps:
  assumes "i < length (steps st)"
  shows "\<exists>s'. steps (processStep type db initial i st) = (steps st)[i := s']
           \<and> status s' = (if stepThrows type db i then error else completed)
           \<and> (stepThrows type db i \<longrightarrow> (\<exists>m. error_step s' = Some m \<and> m \<noteq> []))"
proof -
  define st1 where "st1 = st\<lparr>steps := updateStep i (\<lambda>step. step\<lparr>status := processing\<rparr>) (steps st)\<rparr>"
  define work where "work = (if type = download then loadSupplierData db (id_step (initial ! i)) i st1
             else uploadToMarketplace (id_step (initial ! i)) i st1)"
  have len1: "i < length (steps st1)"
    using assms by (simp add: st1_def updateStep_list_update)
  have "\<exists>p. steps (snd work) = (steps st1)[i := (steps st1 ! i)\<lparr>progress := p\<rparr>]"
  proof (cases type)
    case download
    then show ?thesis
      using loadLoop_steps [of db "id_step (initial ! i)" i 0 sampleProducts st1]
      by (simp add: work_def loadSupplierData_def)
  next
    case upload
    then show ?thesis
      using uploadLoop_steps [of i 0 st1] by (simp add: work_def uploadToMarketplace_def)
  qed
  then obtain p where p: "steps (snd work) = (steps st1)[i := (steps st1 ! i)\<lparr>progress := p\<rparr>]" ..
  have thr: "stepThrows type db i \<longleftrightarrow> fst work \<noteq> None"
  proof (cases type)
    case download
    then show ?thesis
      using stepThrows_download [of db i "id_step (initial ! i)" st1] by (simp add: work_def)
  next
    case upload
    then show ?thesis by (simp add: work_def stepThrows_def uploadToMarketplace_def)
  qed
  have msg: "errorMessage e \<noteq> []" if "fst work = Some e" for e
  proof (cases type)
    case download
    with that show ?thesis
      using loadLoop_message [of db "id_step (initial ! i)" i 0 sampleProducts st1 e]
      by (simp add: work_def loadSupplierData_def)
  next
    case upload
    with that show ?thesis by (simp add: work_def uploadToMarketplace_def)
  qed
  have unfold: "processStep type db initial i st =
      (case fst work of
         None \<Rightarrow> (snd work)\<lparr>steps := updateStep i (\<lambda>step. step\<lparr>status := completed, progress := 100\<rparr>) (steps (snd work))\<rparr>
       | Some e \<Rightarrow> (snd work)\<lparr>steps := updateStep i (\<lambda>step. step\<lparr>status := error, progress := 100, error_step := Some (errorMessage e)\<rparr>) (steps (snd work))\<rparr>)
      \<lparr>overallProgress := (real (i + 1) / real (length initial)) * 100\<rparr>"
    by (simp only: processStep_def Let_def work_def st1_def split_beta)
  show ?thesis
  proof (cases "fst work")
    case None
    with unfold p len1 assms
    have "steps (processStep type db initial i st) =
        (steps st)[i := (steps st ! i)\<lparr>status := completed, progress := 100\<rparr>]"
      by (simp add: updateStep_list_update st1_def)
    with thr None show ?thesis
      by (intro exI [of _ "(steps st ! i)\<lparr>status := completed, progress := 100\<rparr>"]) simp
  next
    case (Some e)
    with unfold p len1 assms
    have "steps (processStep type db initial i st) =
        (steps st)[i := (steps st ! i)\<lparr>status := error, progress := 100,
                                          error_step := Some (errorMessage e)\<rparr>]"
      by (simp add: updateStep_list_update st1_def)
    with thr Some msg [OF Some] show ?thesis
      by (intro exI [of _ "(steps st ! i)\<lparr>status := error, progress := 100,
                                          error_step := Some (errorMessage e)\<rparr>"]) simp
  qed
qed

lemma processStep_rest:
  "overallProgress (processStep type db initial i st) = real (i + 1) / real (length initial) * 100
   \<and> isCompleted (processStep type db initial i st) = isCompleted st
   \<and> onComplete_calls (processStep type db initial i st) = onComplete_calls st"
  using loadLoop_rest uploadLoop_rest
  by (simp add: processStep_def Let_def split_beta loadSupplierData_def uploadToMarketplace_def
      split: option.splits)

lemma stateAfter_Suc:
  "stateAfter type db initial (Suc k) st = processStep type db initial k (stateAfter type db initial k st)"
  by (simp add: stateAfter_def)

lemma stateAfter_invariant:
  assumes "steps st = initial" and "k \<le> length initial"
  shows "length (steps (stateAfter type db initial k st)) = length initial
    \<and> (\<forall>i<k. status (steps (stateAfter type db initial k st) ! i)
                 = (if stepThrows type db i then error else completed)
             \<and> (stepThrows type db i \<longrightarrow>
                  (\<exists>m. error_step (steps (stateAfter type db initial k st) ! i) = Some m \<and> m \<noteq> [])))
    \<and> (\<forall>i. k \<le> i \<and> i < length initial \<longrightarrow> steps (stateAfter type db initial k st) ! i = initial ! i)
    \<and> (0 < k \<longrightarrow> overallProgress (stateAfter type db initial k st) = real k / real (length initial) * 100)
    \<and> isCompleted (stateAfter type db initial k st) = isCompleted st
    \<and> onComplete_calls (stateAfter type db initial k st) = onComplete_calls st"
  using assms(2)
proof (induction k)
  case 0
  show ?case using assms(1) by (simp add: stateAfter_def)
next
  case (Suc k)
  define s where "s = stateAfter type db initial k st"
  have IH: "length (steps s) = length initial"
      "\<And>i. i < k \<Longrightarrow> status (steps s ! i) = (if stepThrows type db i then error else completed)"
      "\<And>i. i < k \<Longrightarrow> stepThrows type db i \<Longrightarrow> \<exists>m. error_step (steps s ! i) = Some m \<and> m \<noteq> []"
      "\<And>i. k \<le> i \<Longrightarrow> i < length initial \<Longrightarrow> steps s ! i = initial ! i"
      "isCompleted s = isCompleted st" "onComplete_calls s = onComplete_calls st"
    using Suc by (simp_all add: s_def)
  have k: "k < length (steps s)" using Suc.prems IH(1) by simp
  obtain x where x: "steps (processStep type db initial k s) = (steps s)[k := x]"
      "status x = (if stepThrows type db k then error else completed)"
      "stepThrows type db k \<longrightarrow> (\<exists>m. error_step x = Some m \<and> m \<noteq> [])"
    using processStep_steps [OF k, of type db initial] by blast
  have rest: "overallProgress (processStep type db initial k s) = real (Suc k) / real (length initial) * 100"
      "isCompleted (processStep type db initial k s) = isCompleted s"
      "onComplete_calls (processStep type db initial k s) = onComplete_calls s"
    using processStep_rest [of type db initial k s] by simp_all
  have a: "length (steps (processStep type db initial k s)) = length initial"
    using x(1) IH(1) by simp
  have b: "status (steps (processStep type db initial k s) ! i)
                 = (if stepThrows type db i then error else completed)
             \<and> (stepThrows type db i \<longrightarrow>
                  (\<exists>m. error_step (steps (processStep type db initial k s) ! i) = Some m \<and> m \<noteq> []))"
    if "i < Suc k" for i
  proof (cases "i = k")
    case True
    with x k show ?thesis by simp
  next
    case False
    with that have "i < k" by simp
    with IH(2,3) [of i] x(1) False show ?thesis by simp
  qed
  have c: "steps (processStep type db initial k s) ! i = initial ! i"
    if "Suc k \<le> i" "i < length initial" for i
    using that x(1) IH(4) [of i] by simp
  show ?case
    unfolding stateAfter_Suc s_def [symmetric]
    using a b c rest IH(5,6) by simp
qed

lemma count_prefix:
  assumes "k \<le> length xs" and "\<And>i. i < k \<Longrightarrow> P (xs ! i)"
    and "\<And>i. k \<le> i \<Longrightarrow> i < length xs \<Longrightarrow> \<not> P (xs ! i)"
  shows "length (filter P xs) = k"
proof -
  have "filter P (take k xs) = take k xs"
    using assms(1,2) by (auto simp: filter_id_conv in_set_conv_nth)
  moreover have "filter P (drop k xs) = []"
    using assms(1,3) by (auto simp: filter_empty_conv in_set_conv_nth)
  moreover have "filter P xs = filter P (take k xs) @ filter P (drop k xs)"
    by (metis append_take_drop_id filter_append)
  ultimately show ?thesis using assms(1) by simp
qed

lemma initialSteps_pending: "s \<in> set (initialSteps type suppliers marketplaces) \<Longrightarrow> status s = pending"
  by (auto simp: initialSteps_def split: if_splits)

text \<open>
  C1. For every run of the orchestrator over a non-empty list of steps: a step whose work
  throws ends with status error and a non-empty error message, every other step ends
  completed, so the steps after a failed one still run to a terminal status; after each
  step the first \<open>k\<close> steps are the terminal ones and the overall progress equals (number of
  terminal steps / total steps) * 100, whatever the outcome of that step, and it is 100 at
  the end; and once every step is terminal the run is marked completed and the
  \<open>onComplete\<close> callback, when one was passed, has been called exactly once, and
  not at all while steps remain.
\<close>

theorem LoadingProgress_isolates_failures:
  "initialSteps type suppliers marketplaces \<noteq> [] \<Longrightarrow>
     length (steps (LoadingProgress type suppliers marketplaces db onComplete))
       = length (initialSteps type suppliers marketplaces)
     \<and> (\<forall>i < length (initialSteps type suppliers marketplaces).
          status (steps (LoadingProgress type suppliers marketplaces db onComplete) ! i)
            = (if stepThrows type db i then error else completed)
          \<and> (stepThrows type db i \<longrightarrow>
               (\<exists>m. error_step (steps (LoadingProgress type suppliers marketplaces db onComplete) ! i)
                      = Some m \<and> m \<noteq> [])))
     \<and> (\<forall>k. 0 < k \<and> k \<le> length (initialSteps type suppliers marketplaces) \<longrightarrow>
          length (filter terminal (steps (LoadingProgress_after type suppliers marketplaces db k))) = k
          \<and> overallProgress (LoadingProgress_after type suppliers marketplaces db k)
              = real (length (filter terminal
                   (steps (LoadingProgress_after type suppliers marketplaces db k))))
                / real (length (initialSteps type suppliers marketplaces)) * 100
          \<and> onComplete_calls (LoadingProgress_after type suppliers marketplaces db k) = 0)
     \<and> list_all terminal (steps (LoadingProgress type suppliers marketplaces db onComplete))
     \<and> overallProgress (LoadingProgress type suppliers marketplaces db onComplete) = 100
     \<and> isCompleted (LoadingProgress type suppliers marketplaces db onComplete)
     \<and> onComplete_calls (LoadingProgress type suppliers marketplaces db onComplete)
         = (if onComplete then 1 else 0)"
proof -
  assume nonempty: "initialSteps type suppliers marketplaces \<noteq> []"
  define initial where "initial = initialSteps type suppliers marketplaces"
  define st0 where "st0 = \<lparr> steps = initial, overallProgress = 0, isCompleted = False,
             onComplete_calls = 0, inserted = [] \<rparr>"
  define after where "after k = stateAfter type db initial k st0" for k
  define final where "final = LoadingProgress type suppliers marketplaces db onComplete"
  have n: "0 < length initial" using nonempty by (simp add: initial_def)
  have after_eq: "LoadingProgress_after type suppliers marketplaces db k = after k" for k
    by (simp add: LoadingProgress_after_def Let_def after_def st0_def initial_def)
  have final_eq: "final = (after (length initial))\<lparr>isCompleted := True,
      onComplete_calls := onComplete_calls (after (length initial)) + (if onComplete then 1 else 0)\<rparr>"
    by (simp add: final_def LoadingProgress_def startProcess_def Let_def after_def st0_def initial_def)
  have inv: "length (steps (after k)) = length initial"
      "\<And>i. i < k \<Longrightarrow> status (steps (after k) ! i) = (if stepThrows type db i then error else completed)"
      "\<And>i. i < k \<Longrightarrow> stepThrows type db i \<Longrightarrow> \<exists>m. error_step (steps (after k) ! i) = Some m \<and> m \<noteq> []"
      "\<And>i. k \<le> i \<Longrightarrow> i < length initial \<Longrightarrow> steps (after k) ! i = initial ! i"
      "0 < k \<Longrightarrow> overallProgress (after k) = real k / real (length initial) * 100"
      "onComplete_calls (after k) = 0"
    if "k \<le> length initial" for k
    using stateAfter_invariant [of st0 initial k type db] that
    by (simp_all add: after_def st0_def)
  have count: "length (filter terminal (steps (after k))) = k" if "k \<le> length initial" for k
  proof (rule count_prefix)
    show "k \<le> length (steps (after k))" using that inv(1) by simp
    show "terminal (steps (after k) ! i)" if "i < k" for i
      using inv(2) [OF \<open>k \<le> length initial\<close> that] by (simp add: terminal_def)
    show "\<not> terminal (steps (after k) ! i)" if "k \<le> i" "i < length (steps (after k))" for i
    proof -
      have "i < length initial" using that(2) inv(1) \<open>k \<le> length initial\<close> by simp
      then have "steps (after k) ! i = initial ! i" "initial ! i \<in> set initial"
        using inv(4) [OF \<open>k \<le> length initial\<close> that(1)] by simp_all
      then show ?thesis
        using initialSteps_pending [of "initial ! i" type suppliers marketplaces]
        by (simp add: terminal_def initial_def)
    qed
  qed
  have all_terminal: "list_all terminal (steps final)"
    unfolding list_all_length
    using inv(1,2) [of "length initial"] by (simp add: final_eq terminal_def)
  show ?thesis
    unfolding after_eq final_def [symmetric] initial_def [symmetric]
    using n inv count all_terminal
    by (simp add: final_eq)
qed

text \<open>
  The scenario of the specification: three suppliers, and the store rejects the third
  insert of the second step.
\<close>

theorem LoadingProgress_isolates_failures_witness:
  "initialSteps download [''S1'', ''S2'', ''S3''] [] \<noteq> []
   \<and> stepThrows download (\<lambda>i j. if i = 1 \<and> j = 2 then Some ''timeout'' else None) 1
   \<and> map status (steps (LoadingProgress download [''S1'', ''S2'', ''S3''] []
        (\<lambda>i j. if i = 1 \<and> j = 2 then Some ''timeout'' else None) True))
       = [completed, error, completed]
   \<and> error_step (steps (LoadingProgress download [''S1'', ''S2'', ''S3''] []
        (\<lambda>i j. if i = 1 \<and> j = 2 then Some ''timeout'' else None) True) ! 1)
       = Some (insert_error_prefix @ sample_name_prefix @ ''3: timeout'')
   \<and> overallProgress (LoadingProgress download [''S1'', ''S2'', ''S3''] []
        (\<lambda>i j. if i = 1 \<and> j = 2 then Some ''timeout'' else None) True) = 100
   \<and> isCompleted (LoadingProgress download [''S1'', ''S2'', ''S3''] []
        (\<lambda>i j. if i = 1 \<and> j = 2 then Some ''timeout'' else None) True)
   \<and> onComplete_calls (LoadingProgress download [''S1'', ''S2'', ''S3''] []
        (\<lambda>i j. if i = 1 \<and> j = 2 then Some ''timeout'' else None) True) = 1"
proof -
  have nonempty: "initialSteps download [''S1'', ''S2'', ''S3''] [] \<noteq> []"
    by (simp add: initialSteps_def)
  have throws: "stepThrows download (\<lambda>i j. if i = 1 \<and> j = 2 then Some ''timeout'' else None) 1"
    by (simp add: stepThrows_def sampleProducts_def upt_rec [of 0] upt_rec [of 1] upt_rec [of 2])
  have run: "map status (steps (LoadingProgress download [''S1'', ''S2'', ''S3''] []
        (\<lambda>i j. if i = 1 \<and> j = 2 then Some ''timeout'' else None) True))
       = [completed, error, completed]
     \<and> error_step (steps (LoadingProgress download [''S1'', ''S2'', ''S3''] []
        (\<lambda>i j. if i = 1 \<and> j = 2 then Some ''timeout'' else None) True) ! 1)
       = Some (insert_error_prefix @ sample_name_prefix @ ''3: timeout'')"
    by (simp add: LoadingProgress_def startProcess_def stateAfter_def processStep_def
        loadSupplierData_def sampleProducts_def updateStep_def initialSteps_def Let_def
        upt_rec [of 0] upt_rec [of 1] upt_rec [of 2] upt_rec [of 3])
  from LoadingProgress_isolates_failures [OF nonempty, of
      "\<lambda>i j. if i = 1 \<and> j = 2 then Some ''timeout'' else None" True]
  have "overallProgress (LoadingProgress download [''S1'', ''S2'', ''S3''] []
        (\<lambda>i j. if i = 1 \<and> j = 2 then Some ''timeout'' else None) True) = 100
     \<and> isCompleted (LoadingProgress download [''S1'', ''S2'', ''S3''] []
        (\<lambda>i j. if i = 1 \<and> j = 2 then Some ''timeout'' else None) True)
     \<and> onComplete_calls (LoadingProgress download [''S1'', ''S2'', ''S3''] []
        (\<lambda>i j. if i = 1 \<and> j = 2 then Some ''timeout'' else None) True) = 1"
    by simp
  with nonempty throws run show ?thesis by simp
qed

section \<open>Properties of the pricing rule evaluator\<close>

text \<open>
  C2, as amended. For every current price \<open>p\<close> other than zero and every value \<open>v\<close>, the
  evaluator returns \<open>p * v\<close> for the action multiply and \<open>p + v\<close> for the action add; it
  returns null when the current price is null; and for any other action it returns \<open>p\<close>
  unchanged.
\<close>

theorem calculateNewPrice_rules:
  "p \<noteq> 0 \<Longrightarrow>
     calculateNewPrice (Some p) ''multiply'' v = Some (p * v)
     \<and> calculateNewPrice (Some p) ''add'' v = Some (p + v)
     \<and> calculateNewPrice None action v = None
     \<and> (action \<noteq> ''multiply'' \<and> action \<noteq> ''add'' \<longrightarrow>
          calculateNewPrice (Some p) action v = Some p)"
  by (simp add: calculateNewPrice_def)

theorem calculateNewPrice_rules_witness:
  "(1000::real) \<noteq> 0
   \<and> calculateNewPrice (Some 1000) ''multiply'' 1.1 = Some 1100
   \<and> calculateNewPrice (Some 1000) ''add'' 1.1 = Some 1001.1
   \<and> calculateNewPrice None ''divide'' 1.1 = None
   \<and> ''divide'' \<noteq> ''multiply'' \<and> ''divide'' \<noteq> ''add''
   \<and> calculateNewPrice (Some 1000) ''divide'' 1.1 = Some 1000"
proof -
  have nz: "(1000::real) \<noteq> 0" by simp
  show ?thesis
    using nz calculateNewPrice_rules [OF nz, of "1.1" "''divide''"] by simp
qed

text \<open>
  C2, as stated, fails at the current price 0 with the action multiply: the claim gives
  \<open>0 * 2\<close>, the code gives null.
\<close>

theorem calculateNewPrice_zero_counterexample:
  "calculateNewPrice (Some 0) ''multiply'' 2 \<noteq> Some (0 * 2)"
  by (simp add: calculateNewPrice_def)

text \<open>
  C10. For a current price equal to 0 the evaluator returns null, whatever the action and
  the value: the same result as for a null current price.
\<close>

theorem calculateNewPrice_zero_is_null:
  "calculateNewPrice (Some 0) action v = None
   \<and> calculateNewPrice (Some 0) action v = calculateNewPrice None action v"
  by (simp add: calculateNewPrice_def)

section \<open>Properties of the price-change classifier\<close>

text \<open>
  C3, as amended. The classifier yields unchanged when either the old price or the new
  price is null or zero; for every pair of non-null, non-zero old and new prices it returns
  exactly one of increased, decreased and unchanged, matching strict comparison: increased
  iff new > old, decreased iff new < old, unchanged iff they are equal.
\<close>

theorem classify_rules:
  "(\<not> truthy_number oldPrice \<or> \<not> truthy_number newPrice \<longrightarrow>
      classify oldPrice newPrice = ''unchanged'')
   \<and> (c \<noteq> 0 \<and> n \<noteq> 0 \<longrightarrow>
        (classify (Some c) (Some n) = ''increased'' \<longleftrightarrow> n > c)
        \<and> (classify (Some c) (Some n) = ''decreased'' \<longleftrightarrow> n < c)
        \<and> (classify (Some c) (Some n) = ''unchanged'' \<longleftrightarrow> n = c))"
  by (auto simp: classify_def)

theorem classify_rules_witness:
  "\<not> truthy_number None
   \<and> classify None (Some 1100) = ''unchanged''
   \<and> (1000::real) \<noteq> 0 \<and> (1100::real) \<noteq> 0
   \<and> (classify (Some 1000) (Some 1100) = ''increased'' \<longleftrightarrow> (1100::real) > 1000)
   \<and> (classify (Some 1000) (Some 1100) = ''decreased'' \<longleftrightarrow> (1100::real) < 1000)
   \<and> (classify (Some 1000) (Some 1100) = ''unchanged'' \<longleftrightarrow> (1100::real) = 1000)
   \<and> classify (Some 1000) (Some 1100) = ''increased''"
  using classify_rules [of None "Some 1100" 1000 1100] by simp

text \<open>
  C3, as stated, fails when the new price is zero: a product priced 5 with the rule
  (multiply, 0) gets the new price 0, which is below 5, yet its status is unchanged and not
  decreased.
\<close>

theorem classify_zero_counterexample:
  "upd_new_price (priceUpdate ''multiply'' 0 (supplier_row ''p1'' ''A1'' ''X'' None
       \<lparr>current_price := Some 5\<rparr>)) = Some 0
   \<and> (0::real) < 5
   \<and> classify (Some 5) (Some 0) \<noteq> ''decreased''
   \<and> upd_price_status (priceUpdate ''multiply'' 0 (supplier_row ''p1'' ''A1'' ''X'' None
       \<lparr>current_price := Some 5\<rparr>)) = ''unchanged''"
  by (simp add: priceUpdate_def calculateNewPrice_def classify_def supplier_row_def)

section \<open>Properties of the article reconciler\<close>

lemma articleMapping_set_apply:
  "articleMapping_set m mp k =
     (if k \<noteq> [] \<and> marketplace_article mp = Some k then Some mp else m k)"
  by (cases "marketplace_article mp") (auto simp: articleMapping_set_def)

lemma foldl_articleMapping_set:
  "foldl articleMapping_set Map.empty mps k =
     (if k = [] then None else find (\<lambda>mp. marketplace_article mp = Some k) (rev mps))"
proof (induction mps arbitrary: k rule: rev_induct)
  case Nil
  show ?case by simp
next
  case (snoc mp mps)
  show ?case
    using snoc.IH by (simp add: articleMapping_set_apply)
qed

lemma articleMapping_spec: "articleMapping marketplaceProducts k = spec_matched marketplaceProducts k"
  by (cases marketplaceProducts)
     (simp_all add: articleMapping_def spec_matched_def foldl_articleMapping_set)

lemma enrichProduct_fields:
  "id_p (enrichProduct m sp) = id_p sp
   \<and> supplier_article (enrichProduct m sp) = supplier_article sp
   \<and> name_supplier (enrichProduct m sp) = name_supplier sp
   \<and> current_price (enrichProduct m sp) = current_price sp
   \<and> price_status (enrichProduct m sp) = price_status sp"
  by (simp add: enrichProduct_def Let_def)

lemma enrichProduct_display_name:
  "display_name (enrichProduct m sp) =
     Some (case m (supplier_article sp) of
             None \<Rightarrow> name_supplier sp
           | Some mp \<Rightarrow>
               (case name_marketplace mp of
                  None \<Rightarrow> name_supplier sp
                | Some n \<Rightarrow> if n \<noteq> [] then n else name_supplier sp))"
  by (auto simp: enrichProduct_def Let_def or_string_def split: option.splits)

lemma enrichProduct_no_match:
  "m (supplier_article sp) = None \<Longrightarrow>
     marketplace_article (enrichProduct m sp) = None \<and> name_marketplace (enrichProduct m sp) = None"
  by (simp add: enrichProduct_def Let_def or_string_def)

text \<open>
  C4, as amended. For every list of supplier products and marketplace products, the
  reconciler builds a lookup keyed by \<open>marketplace_article\<close> over the marketplace rows whose
  \<open>marketplace_article\<close> is non-empty (rows with a null or empty key are skipped; last write
  wins on duplicate keys), matches each supplier product by its \<open>supplier_article\<close>, and
  produces, in the order of the supplier rows, an enriched record that preserves the
  supplier row's id and whose \<open>display_name\<close> equals the matched row's \<open>name_marketplace\<close>
  when a match exists with a non-empty \<open>name_marketplace\<close>, else the supplier's
  \<open>name_supplier\<close>, with \<open>marketplace_article\<close> null when no match is found.
\<close>

theorem reconcile_enriched:
  "articleMapping mps = spec_matched mps
   \<and> length (enrichedProducts sps mps) = length sps
   \<and> (\<forall>i < length sps.
        id_p (enrichedProducts sps mps ! i) = id_p (sps ! i)
        \<and> display_name (enrichedProducts sps mps ! i) =
            Some (case spec_matched mps (supplier_article (sps ! i)) of
                    None \<Rightarrow> name_supplier (sps ! i)
                  | Some mp \<Rightarrow>
                      (case name_marketplace mp of
                         None \<Rightarrow> name_supplier (sps ! i)
                       | Some n \<Rightarrow> if n \<noteq> [] then n else name_supplier (sps ! i)))
        \<and> (spec_matched mps (supplier_article (sps ! i)) = None \<longrightarrow>
             marketplace_article (enrichedProducts sps mps ! i) = None))"
proof -
  have m: "articleMapping mps = spec_matched mps"
    by (rule ext) (rule articleMapping_spec)
  show ?thesis
    unfolding enrichedProducts_def m
    by (simp add: enrichProduct_fields enrichProduct_display_name enrichProduct_no_match)
qed

text \<open>
  The scenario of the specification: supplier row A1 named X, marketplace row A1 named Y
  (and an earlier duplicate named Z, which loses); a second supplier row B2 has no match.
\<close>

theorem reconcile_enriched_witness:
  "(0::nat) < length [supplier_row ''s1'' ''A1'' ''X'' None, supplier_row ''s2'' ''B2'' ''W'' None]
   \<and> (1::nat) < length [supplier_row ''s1'' ''A1'' ''X'' None, supplier_row ''s2'' ''B2'' ''W'' None]
   \<and> id_p (enrichedProducts
        [supplier_row ''s1'' ''A1'' ''X'' None, supplier_row ''s2'' ''B2'' ''W'' None]
        (Some [marketplace_row ''m0'' (Some ''A1'') (Some ''Z''),
               marketplace_row ''m1'' (Some ''A1'') (Some ''Y'')]) ! 0) = ''s1''
   \<and> display_name (enrichedProducts
        [supplier_row ''s1'' ''A1'' ''X'' None, supplier_row ''s2'' ''B2'' ''W'' None]
        (Some [marketplace_row ''m0'' (Some ''A1'') (Some ''Z''),
               marketplace_row ''m1'' (Some ''A1'') (Some ''Y'')]) ! 0) = Some ''Y''
   \<and> spec_matched (Some [marketplace_row ''m0'' (Some ''A1'') (Some ''Z''),
               marketplace_row ''m1'' (Some ''A1'') (Some ''Y'')]) ''B2'' = None
   \<and> display_name (enrichedProducts
        [supplier_row ''s1'' ''A1'' ''X'' None, supplier_row ''s2'' ''B2'' ''W'' None]
        (Some [marketplace_row ''m0'' (Some ''A1'') (Some ''Z''),
               marketplace_row ''m1'' (Some ''A1'') (Some ''Y'')]) ! 1) = Some ''W''
   \<and> marketplace_article (enrichedProducts
        [supplier_row ''s1'' ''A1'' ''X'' None, supplier_row ''s2'' ''B2'' ''W'' None]
        (Some [marketplace_row ''m0'' (Some ''A1'') (Some ''Z''),
               marketplace_row ''m1'' (Some ''A1'') (Some ''Y'')]) ! 1) = None"
  using reconcile_enriched
    [of "Some [marketplace_row ''m0'' (Some ''A1'') (Some ''Z''),
               marketplace_row ''m1'' (Some ''A1'') (Some ''Y'')]"
        "[supplier_row ''s1'' ''A1'' ''X'' None, supplier_row ''s2'' ''B2'' ''W'' None]"]
  by (simp add: spec_matched_def supplier_row_def marketplace_row_def All_less_Suc2)

text \<open>
  C4, as stated, fails on an empty article: the marketplace row is keyed by the same
  (empty) \<open>marketplace_article\<close> as the supplier row's \<open>supplier_article\<close> and carries the
  non-empty name Y, yet the enriched record displays the supplier's name X.
\<close>

theorem reconcile_empty_article_counterexample:
  "marketplace_article (marketplace_row ''m1'' (Some '''') (Some ''Y''))
     = Some (supplier_article (supplier_row ''s1'' '''' ''X'' None))
   \<and> name_marketplace (marketplace_row ''m1'' (Some '''') (Some ''Y'')) = Some ''Y''
   \<and> display_name (enrichedProducts [supplier_row ''s1'' '''' ''X'' None]
        (Some [marketplace_row ''m1'' (Some '''') (Some ''Y'')]) ! 0) \<noteq> Some ''Y''
   \<and> display_name (enrichedProducts [supplier_row ''s1'' '''' ''X'' None]
        (Some [marketplace_row ''m1'' (Some '''') (Some ''Y'')]) ! 0) = Some ''X''"
  by (simp add: enrichedProducts_def enrichProduct_def articleMapping_def articleMapping_set_def
      or_string_def supplier_row_def marketplace_row_def)

section \<open>Properties of the sandbox quota guard\<close>

lemma sandbox_step_invariant:
  "used (testRequests s) \<le> max_requests (testRequests s) \<Longrightarrow>
     used (testRequests (sandbox_step s e)) \<le> max_requests (testRequests (sandbox_step s e))
     \<and> max_requests (testRequests (sandbox_step s e)) = max_requests (testRequests s)"
  by (cases e)
     (simp_all add: runTest_def resetTestCounter_def sandbox_onCancel_def sandbox_onComplete_def)

lemma sandbox_run_invariant:
  "used (testRequests s) \<le> max_requests (testRequests s) \<Longrightarrow>
     used (testRequests (sandbox_run s events)) \<le> max_requests (testRequests (sandbox_run s events))
     \<and> max_requests (testRequests (sandbox_run s events)) = max_requests (testRequests s)"
  unfolding sandbox_run_def
proof (induction events arbitrary: s)
  case Nil
  then show ?case by simp
next
  case (Cons e events)
  from sandbox_step_invariant [OF Cons.prems, of e] Cons.IH [of "sandbox_step s e"]
  show ?case by simp
qed

text \<open>
  C5. The guard denies a run whenever used >= max at the time of the request: the page
  stays as it was (nothing but a toast is added, so the progress view is not shown and no
  step starts). Otherwise it allows the run, shows the progress view and increments the
  counter by exactly one for the run. Hence used never exceeds max along any sequence of
  the page's events; at the boundary, used = max is denied, used = max - 1 is allowed and
  raises used to max, after which the next request is denied; and the reset sets used back
  to 0.
\<close>

theorem runTest_quota:
  "(used (testRequests s) \<ge> max_requests (testRequests s) \<longrightarrow>
      denied type s
      \<and> showProgress (runTest type s) = showProgress s
      \<and> testing (runTest type s) = testing s
      \<and> testRequests (runTest type s) = testRequests s)
   \<and> (used (testRequests s) < max_requests (testRequests s) \<longrightarrow>
      \<not> denied type s
      \<and> showProgress (runTest type s)
      \<and> testType (runTest type s) = type
      \<and> used (testRequests (runTest type s)) = used (testRequests s) + 1
      \<and> max_requests (testRequests (runTest type s)) = max_requests (testRequests s))
   \<and> (used (testRequests s) + 1 = max_requests (testRequests s) \<longrightarrow>
      used (testRequests (runTest type s)) = max_requests (testRequests s)
      \<and> denied type' (runTest type s))
   \<and> (used (testRequests s) \<le> max_requests (testRequests s) \<longrightarrow>
      used (testRequests (sandbox_run s events))
        \<le> max_requests (testRequests (sandbox_run s events)))
   \<and> used (testRequests (resetTestCounter s)) = 0
   \<and> max_requests (testRequests (resetTestCounter s)) = max_requests (testRequests s)"
proof -
  have deny: "used (testRequests s) \<ge> max_requests (testRequests s) \<longrightarrow>
      denied type s
      \<and> showProgress (runTest type s) = showProgress s
      \<and> testing (runTest type s) = testing s
      \<and> testRequests (runTest type s) = testRequests s"
    by (simp add: denied_def runTest_def)
  have "runTest type s \<noteq> s\<lparr>toasts := ts\<rparr>" if "used (testRequests s) < max_requests (testRequests s)" for ts
  proof
    assume "runTest type s = s\<lparr>toasts := ts\<rparr>"
    then have "testRequests (runTest type s) = testRequests (s\<lparr>toasts := ts\<rparr>)" by simp
    with that have "used ((testRequests s)\<lparr>used := used (testRequests s) + 1\<rparr>) = used (testRequests s)"
      by (simp add: runTest_def)
    then show False by simp
  qed
  then have allow: "used (testRequests s) < max_requests (testRequests s) \<longrightarrow>
      \<not> denied type s
      \<and> showProgress (runTest type s)
      \<and> testType (runTest type s) = type
      \<and> used (testRequests (runTest type s)) = used (testRequests s) + 1
      \<and> max_requests (testRequests (runTest type s)) = max_requests (testRequests s)"
    by (simp add: denied_def) (simp add: runTest_def)
  have boundary: "used (testRequests s) + 1 = max_requests (testRequests s) \<longrightarrow>
      used (testRequests (runTest type s)) = max_requests (testRequests s)
      \<and> denied type' (runTest type s)"
    by (auto simp: denied_def runTest_def)
  have reset: "used (testRequests (resetTestCounter s)) = 0
      \<and> max_requests (testRequests (resetTestCounter s)) = max_requests (testRequests s)"
    by (simp add: resetTestCounter_def)
  show ?thesis
    using deny allow boundary reset sandbox_run_invariant [of s events] by blast
qed

theorem runTest_quota_witness:
  "used (testRequests (SandboxPage_initial\<lparr>testRequests := \<lparr>used = 99, max_requests = 100\<rparr>\<rparr>)) + 1
     = max_requests (testRequests (SandboxPage_initial\<lparr>testRequests := \<lparr>used = 99, max_requests = 100\<rparr>\<rparr>))
   \<and> \<not> denied download (SandboxPage_initial\<lparr>testRequests := \<lparr>used = 99, max_requests = 100\<rparr>\<rparr>)
   \<and> used (testRequests (runTest download
        (SandboxPage_initial\<lparr>testRequests := \<lparr>used = 99, max_requests = 100\<rparr>\<rparr>))) = 100
   \<and> denied upload (runTest download
        (SandboxPage_initial\<lparr>testRequests := \<lparr>used = 99, max_requests = 100\<rparr>\<rparr>))
   \<and> used (testRequests (SandboxPage_initial\<lparr>testRequests := \<lparr>used = 100, max_requests = 100\<rparr>\<rparr>))
      \<ge> max_requests (testRequests (SandboxPage_initial\<lparr>testRequests := \<lparr>used = 100, max_requests = 100\<rparr>\<rparr>))
   \<and> denied download (SandboxPage_initial\<lparr>testRequests := \<lparr>used = 100, max_requests = 100\<rparr>\<rparr>)
   \<and> used (testRequests (sandbox_run
        (SandboxPage_initial\<lparr>testRequests := \<lparr>used = 99, max_requests = 100\<rparr>\<rparr>)
        [RunTest download, OnComplete, RunTest upload, RunTest download])) = 100
   \<and> used (testRequests (sandbox_run
        (SandboxPage_initial\<lparr>testRequests := \<lparr>used = 99, max_requests = 100\<rparr>\<rparr>)
        [RunTest download, OnComplete, ResetTestCounter, RunTest upload])) = 1"
  using runTest_quota [of "SandboxPage_initial\<lparr>testRequests := \<lparr>used = 99, max_requests = 100\<rparr>\<rparr>"
      download upload "[RunTest download, OnComplete, RunTest upload, RunTest download]"]
    runTest_quota [of "SandboxPage_initial\<lparr>testRequests := \<lparr>used = 100, max_requests = 100\<rparr>\<rparr>"
      download upload "[]"]
  by (simp add: SandboxPage_initial_def sandbox_run_def runTest_def resetTestCounter_def
      sandbox_onComplete_def)

section \<open>Properties of the marketplace adapter\<close>

lemma image_issues_empty:
  "concat (map_indexed k (image_issues validUrl) imgs) = [] \<longleftrightarrow> (\<forall>img \<in> set imgs. validUrl (url img))"
  by (induction imgs arbitrary: k) (simp_all add: image_issues_def)

lemma ProductSchema_issues_empty:
  "ProductSchema_issues validUrl product = [] \<longleftrightarrow>
     sku product \<noteq> [] \<and> title product \<noteq> [] \<and> brand product \<noteq> [] \<and> category product \<noteq> []
     \<and> description product \<noteq> [] \<and> (\<forall>img \<in> set (images product). validUrl (url img))"
  by (auto simp add: ProductSchema_issues_def min1_def image_issues_empty
      simp del: concat_eq_Nil_conv)

text \<open>
  C6, as amended. Every product payload submitted through \<open>addProduct\<close> is validated
  against the schema before any network call. Validation requires non-empty sku, title,
  brand, category and description, and a syntactically valid URL for every image that is
  supplied (an empty list of images is accepted); each attribute is a (code, value) pair by
  its type. A payload violating these rules fails with the schema's issues and no request
  is made; a valid payload results in exactly one request, a POST of the payload to
  \<open>/goods\<close>.
\<close>

theorem addProduct_validates_first:
  "(ProductSchema_parse validUrl product = Inr product \<longleftrightarrow>
      sku product \<noteq> [] \<and> title product \<noteq> [] \<and> brand product \<noteq> [] \<and> category product \<noteq> []
      \<and> description product \<noteq> [] \<and> (\<forall>img \<in> set (images product). validUrl (url img)))
   \<and> (ProductSchema_parse validUrl product \<noteq> Inr product \<longrightarrow>
        fst (addProduct authToken validUrl fetch product)
          = Inl (ZodError (ProductSchema_issues validUrl product))
        \<and> ProductSchema_issues validUrl product \<noteq> []
        \<and> snd (addProduct authToken validUrl fetch product) = [])
   \<and> (ProductSchema_parse validUrl product = Inr product \<longrightarrow>
        snd (addProduct authToken validUrl fetch product)
          = [\<lparr> request_url = baseUrl @ ''/goods'', request_method = ''POST'',
               request_headers =
                 [(''X-Auth-Token'', authToken),
                  (''Content-Type'', ''application/vnd.api+json''),
                  (''Accept'', ''application/vnd.api+json'')],
               request_body = Some product \<rparr>])"
proof -
  have parse: "ProductSchema_parse validUrl product = Inr product \<longleftrightarrow>
      ProductSchema_issues validUrl product = []"
    by (simp add: ProductSchema_parse_def Let_def)
  have fail: "ProductSchema_issues validUrl product \<noteq> [] \<Longrightarrow>
      addProduct authToken validUrl fetch product
        = (Inl (ZodError (ProductSchema_issues validUrl product)), [])"
    by (simp add: addProduct_def ProductSchema_parse_def Let_def)
  have pass: "ProductSchema_issues validUrl product = [] \<Longrightarrow>
      snd (addProduct authToken validUrl fetch product)
          = [\<lparr> request_url = baseUrl @ ''/goods'', request_method = ''POST'',
               request_headers =
                 [(''X-Auth-Token'', authToken),
                  (''Content-Type'', ''application/vnd.api+json''),
                  (''Accept'', ''application/vnd.api+json'')],
               request_body = Some product \<rparr>]"
    by (simp add: addProduct_def ProductSchema_parse_def makeRequest_def Let_def
        split: fetch_result.splits)
  show ?thesis
    unfolding parse using fail pass ProductSchema_issues_empty [of validUrl product]
    by simp
qed

theorem addProduct_validates_first_witness:
  "ProductSchema_parse https_only (phone_payload\<lparr>sku := ''''\<rparr>) \<noteq> Inr (phone_payload\<lparr>sku := ''''\<rparr>)
   \<and> snd (addProduct ''token'' https_only accepting (phone_payload\<lparr>sku := ''''\<rparr>)) = []
   \<and> ProductSchema_parse https_only
        (phone_payload\<lparr>images := [\<lparr>url = ''https://example.com/image.jpg''\<rparr>, \<lparr>url = ''image.jpg''\<rparr>]\<rparr>)
       \<noteq> Inr (phone_payload\<lparr>images := [\<lparr>url = ''https://example.com/image.jpg''\<rparr>, \<lparr>url = ''image.jpg''\<rparr>]\<rparr>)
   \<and> snd (addProduct ''token'' https_only accepting
        (phone_payload\<lparr>images := [\<lparr>url = ''https://example.com/image.jpg''\<rparr>, \<lparr>url = ''image.jpg''\<rparr>]\<rparr>)) = []
   \<and> ProductSchema_parse https_only phone_payload = Inr phone_payload
   \<and> length (snd (addProduct ''token'' https_only accepting phone_payload)) = 1
   \<and> fst (addProduct ''token'' https_only accepting phone_payload)
       = Inr \<lparr> uploadCode = ''U1'', upload_status = ''UPLOADED'' \<rparr>"
  using addProduct_validates_first [of https_only "phone_payload\<lparr>sku := ''''\<rparr>" "''token''" accepting]
    addProduct_validates_first [of https_only
      "phone_payload\<lparr>images := [\<lparr>url = ''https://example.com/image.jpg''\<rparr>, \<lparr>url = ''image.jpg''\<rparr>]\<rparr>"
      "''token''" accepting]
    addProduct_validates_first [of https_only phone_payload "''token''" accepting]
  by (simp add: phone_payload_def https_only_def accepting_def addProduct_def
      ProductSchema_parse_def ProductSchema_issues_def min1_def image_issues_def makeRequest_def
      Let_def)

text \<open>
  C6, as stated, fails on a payload with no image: it passes validation and the request
  is made.
\<close>

theorem addProduct_no_image_counterexample:
  "length (images (phone_payload\<lparr>images := []\<rparr>)) = 0
   \<and> fst (addProduct ''token'' https_only accepting (phone_payload\<lparr>images := []\<rparr>))
       = Inr \<lparr> uploadCode = ''U1'', upload_status = ''UPLOADED'' \<rparr>
   \<and> length (snd (addProduct ''token'' https_only accepting (phone_payload\<lparr>images := []\<rparr>))) = 1"
  by (simp add: phone_payload_def https_only_def accepting_def addProduct_def
      ProductSchema_parse_def ProductSchema_issues_def min1_def image_issues_def makeRequest_def
      Let_def)

section \<open>Properties of the display sort\<close>

lemma mset_insert_by: "mset (insert_by cmp x ys) = add_mset x (mset ys)"
  by (induction ys) simp_all

lemma mset_insertion_sort: "mset (insertion_sort cmp xs) = mset xs"
  by (induction xs) (simp_all add: mset_insert_by)

lemma set_insert_by: "set (insert_by cmp x ys) = insert x (set ys)"
  by (induction ys) auto

lemma set_insertion_sort: "set (insertion_sort cmp xs) = set xs"
  by (induction xs) (simp_all add: set_insert_by)

lemma sorted_insert_by_key:
  assumes "\<And>a b. a \<in> insert x (set ys) \<Longrightarrow> b \<in> insert x (set ys) \<Longrightarrow> cmp a b = key a - key b"
    and "sorted (map key ys)"
  shows "sorted (map key (insert_by cmp x ys))"
  using assms
proof (induction ys)
  case Nil
  show ?case by simp
next
  case (Cons y ys)
  have xy: "cmp x y = key x - key y"
    by (rule Cons.prems(1)) simp_all
  show ?case
  proof (cases "cmp x y \<le> 0")
    case True
    with xy have "key x \<le> key y" by simp
    with Cons.prems(2) True show ?thesis by fastforce
  next
    case False
    with xy have le: "key y \<le> key x" by simp
    have "sorted (map key (insert_by cmp x ys))"
    proof (rule Cons.IH)
      show "cmp a b = key a - key b"
        if "a \<in> insert x (set ys)" "b \<in> insert x (set ys)" for a b
        using that by (intro Cons.prems(1)) auto
      show "sorted (map key ys)" using Cons.prems(2) by simp
    qed
    with Cons.prems(2) le False show ?thesis
      by (auto simp: set_insert_by)
  qed
qed

lemma sorted_insertion_sort_key:
  assumes "\<And>a b. a \<in> set xs \<Longrightarrow> b \<in> set xs \<Longrightarrow> cmp a b = key a - key b"
  shows "sorted (map key (insertion_sort cmp xs))"
  using assms
proof (induction xs)
  case Nil
  show ?case by simp
next
  case (Cons x xs)
  show ?case
  proof (simp only: insertion_sort.simps, rule sorted_insert_by_key)
    show "cmp a b = key a - key b"
      if "a \<in> insert x (set (insertion_sort cmp xs))"
        "b \<in> insert x (set (insertion_sort cmp xs))" for a b
      using that by (intro Cons.prems) (auto simp: set_insertion_sort)
    show "sorted (map key (insertion_sort cmp xs))"
      by (rule Cons.IH) (simp add: Cons.prems)
  qed
qed

lemma order_of_plain: "plain_status s \<Longrightarrow> order_of s = Num (spec_rank s)"
  by (cases s)
     (auto simp: plain_status_def order_of_def statusOrder_def spec_rank_def
        Object_prototype_keys_def)

lemma compareProducts_plain:
  "plain_status (price_status a) \<Longrightarrow> plain_status (price_status b) \<Longrightarrow>
     compareProducts a b = Some (spec_rank (price_status a) - spec_rank (price_status b))"
  by (simp add: compareProducts_def Let_def order_of_plain)

lemma consistent_plain:
  assumes "\<And>p. p \<in> set ps \<Longrightarrow> plain_status (price_status p)"
  shows "consistent compareProducts ps"
  unfolding consistent_def list_all_iff
  using assms by (auto simp: compareProducts_plain SortCompare_def)

text \<open>
  Where every status is plain the claim holds of the code: the sort returns the same rows,
  in ascending order of the specification's rank.
\<close>

lemma sortedProducts_plain:
  assumes "\<And>p. p \<in> set ps \<Longrightarrow> plain_status (price_status p)"
  shows "\<exists>rows. sortedProducts ps = Some rows \<and> mset rows = mset ps
           \<and> sorted (map (\<lambda>p. spec_rank (price_status p)) rows)"
proof -
  have "sorted (map (\<lambda>p. spec_rank (price_status p))
          (insertion_sort (SortCompare compareProducts) ps))"
  proof (rule sorted_insertion_sort_key)
    show "SortCompare compareProducts a b
        = spec_rank (price_status a) - spec_rank (price_status b)"
      if "a \<in> set ps" "b \<in> set ps" for a b
      using that assms by (simp add: SortCompare_def compareProducts_plain)
  qed
  with consistent_plain [of ps] assms show ?thesis
    by (simp add: sortedProducts_def array_sort_def mset_insertion_sort)
qed

lemma sortedProducts_plain_example:
  "map_option (map id_p) (sortedProducts
        [supplier_row ''a'' ''A1'' ''X'' (Some ''missing''),
         supplier_row ''b'' ''A2'' ''X'' (Some ''archived''),
         supplier_row ''c'' ''A3'' ''X'' (Some ''unchanged''),
         supplier_row ''d'' ''A4'' ''X'' (Some ''increased''),
         supplier_row ''e'' ''A5'' ''X'' None,
         supplier_row ''f'' ''A6'' ''X'' (Some ''decreased''),
         supplier_row ''g'' ''A7'' ''X'' (Some ''increased'')])
     = Some [''d'', ''g'', ''f'', ''c'', ''a'', ''b'', ''e'']"
proof -
  have "consistent compareProducts
        [supplier_row ''a'' ''A1'' ''X'' (Some ''missing''),
         supplier_row ''b'' ''A2'' ''X'' (Some ''archived''),
         supplier_row ''c'' ''A3'' ''X'' (Some ''unchanged''),
         supplier_row ''d'' ''A4'' ''X'' (Some ''increased''),
         supplier_row ''e'' ''A5'' ''X'' None,
         supplier_row ''f'' ''A6'' ''X'' (Some ''decreased''),
         supplier_row ''g'' ''A7'' ''X'' (Some ''increased'')]"
    by (rule consistent_plain)
       (auto simp: plain_status_def supplier_row_def Object_prototype_keys_def)
  then show ?thesis
    by (simp add: sortedProducts_def array_sort_def SortCompare_def compareProducts_def
        order_of_def statusOrder_def Object_prototype_keys_def supplier_row_def)
qed


section \<open>Properties of the gate after a download\<close>

lemma modal_effect_fields:
  "showProgress_cp (modal_effect store s e s') = showProgress_cp s'
   \<and> progressType (modal_effect store s e s') = progressType s'
   \<and> showPriceUpdateModal (modal_effect store s e s') = showPriceUpdateModal s'
   \<and> selectedSuppliers (modal_effect store s e s') = selectedSuppliers s'
   \<and> automationSettings (modal_effect store s e s') = automationSettings s'"
  by (simp add: modal_effect_def Let_def)

lemma modal_effect_views:
  "main_view (modal_effect store s e s') = main_view s'
   \<and> modal_visible (modal_effect store s e s') = modal_visible s'
   \<and> modal_mode (modal_effect store s e s') = modal_mode s'
   \<and> upload_running (modal_effect store s e s') = upload_running s'"
  by (simp add: main_view_def modal_visible_def modal_mode_def upload_running_def
      modal_effect_fields)

text \<open>
  An upload run comes on screen by one event only: the upload button of the review modal,
  pressed while the modal is open in upload mode, with marketplaces and products selected.
\<close>

lemma upload_starts_from_modal:
  assumes "\<not> upload_running s" and "upload_running (panel_step store s e)"
  shows "\<exists>modalMarketplaces modalProducts.
           e = ModalUpload modalMarketplaces modalProducts
           \<and> modalMarketplaces \<noteq> [] \<and> modalProducts \<noteq> []
           \<and> modal_visible s \<and> modal_mode s = upload"
proof -
  from assms(2) have run: "upload_running (panel_handler s e)"
    by (simp add: panel_step_def modal_effect_views)
  show ?thesis
  proof (cases e)
    case (ModalUpload modalMarketplaces modalProducts)
    with run assms(1) show ?thesis
      by (auto simp: handleUpload_def handleStartUpload_def onClose_def upload_running_def
          split: if_splits)
  qed (use run assms(1) in \<open>auto simp: upload_running_def main_view_def handleLoadPrices_def
        handleUploadPrices_def ControlPanel_onComplete_def ControlPanel_onCancel_def
        onClose_def handleSupplierSelect_def handleMarketplaceSelect_def Let_def
        split: if_splits\<close>)
qed

lemma panel_run_snoc:
  "panel_run store s (events @ [e]) = panel_step store (panel_run store s events) e"
  by (simp add: panel_run_def)

lemma upload_run_passes_modal:
  assumes "\<not> upload_running s" and "upload_running (panel_run store s events)"
  shows "\<exists>before modalMarketplaces modalProducts after.
           events = before @ ModalUpload modalMarketplaces modalProducts # after
           \<and> modalMarketplaces \<noteq> [] \<and> modalProducts \<noteq> []
           \<and> modal_visible (panel_run store s before)
           \<and> modal_mode (panel_run store s before) = upload"
  using assms(2)
proof (induction events rule: rev_induct)
  case Nil
  with assms(1) show ?case by (simp add: panel_run_def)
next
  case (snoc e events)
  show ?case
  proof (cases "upload_running (panel_run store s events)")
    case True
    from snoc.IH [OF True] obtain before modalMarketplaces modalProducts after
      where "events = before @ ModalUpload modalMarketplaces modalProducts # after"
        "modalMarketplaces \<noteq> []" "modalProducts \<noteq> []"
        "modal_visible (panel_run store s before)"
        "modal_mode (panel_run store s before) = upload"
      by blast
    then have "events @ [e] = before @ ModalUpload modalMarketplaces modalProducts # (after @ [e])
        \<and> modalMarketplaces \<noteq> [] \<and> modalProducts \<noteq> []
        \<and> modal_visible (panel_run store s before)
        \<and> modal_mode (panel_run store s before) = upload"
      by simp
    then show ?thesis by blast
  next
    case False
    from upload_starts_from_modal [OF False] snoc.prems
    obtain modalMarketplaces modalProducts
      where "e = ModalUpload modalMarketplaces modalProducts"
        "modalMarketplaces \<noteq> []" "modalProducts \<noteq> []"
        "modal_visible (panel_run store s events)"
        "modal_mode (panel_run store s events) = upload"
      unfolding panel_run_snoc by blast
    then have "events @ [e] = events @ ModalUpload modalMarketplaces modalProducts # []
        \<and> modalMarketplaces \<noteq> [] \<and> modalProducts \<noteq> []
        \<and> modal_visible (panel_run store s events)
        \<and> modal_mode (panel_run store s events) = upload"
      by simp
    then show ?thesis by blast
  qed
qed

text \<open>The list that the review shows is the reconciled rows, ordered by their status.\<close>

lemma fetchProducts_reconciled:
  assumes "supplier_query store supplierIds = Some supplierProducts"
    and "supplierProducts \<noteq> []"
    and "\<And>p. p \<in> set supplierProducts \<Longrightarrow> plain_status (price_status p)"
  shows "\<exists>rows. fetchProducts store supplierIds products = Some rows
           \<and> mset rows = mset (enrichedProducts supplierProducts
                 (marketplace_query store (unique (map supplier_article supplierProducts))))
           \<and> sorted (map (\<lambda>p. spec_rank (price_status p)) rows)"
proof -
  have "plain_status (price_status p)"
    if "p \<in> set (enrichedProducts supplierProducts
                 (marketplace_query store (unique (map supplier_article supplierProducts))))"
    for p
    using that assms(3) by (auto simp: enrichedProducts_def enrichProduct_fields)
  from sortedProducts_plain [OF this] assms(1,2) show ?thesis
    by (simp add: fetchProducts_def fetchedProducts_def Let_def)
qed

lemma complete_download_manual:
  assumes "showProgress_cp s" and "progressType s = download"
    and "\<not> auto_mode_enabled (automationSettings s)"
  shows "modal_visible (panel_step store s Complete)
    \<and> modal_mode (panel_step store s Complete) = download
    \<and> \<not> upload_running (panel_step store s Complete)
    \<and> (selectedSuppliers s \<noteq> [] \<longrightarrow>
         modal_products (panel_step store s Complete)
           = fetchProducts store (selectedSuppliers s) (Some []))"
  using assms
  by (simp add: panel_step_def modal_effect_def ControlPanel_onComplete_def Let_def
      main_view_def modal_visible_def modal_mode_def upload_running_def)

text \<open>
  C8. When a download run completes and \<open>auto_mode_enabled\<close> is false, the panel leaves the
  progress view with the price update review open, in its download mode, and no upload
  run is on screen. The review shows the product list of the selected suppliers as
  reconciled and classified: the enriched rows, in ascending order of status rank
  (provided the store returns rows for them and no status names an inherited property,
  for which the order is left to the implementation). From then on, whatever events
  follow, an upload run comes on screen only through the upload button of the review,
  pressed while the review is open in upload mode with marketplaces and products
  selected. When auto mode is enabled, the completion opens nothing: the review flag is
  left as it was.
\<close>

theorem download_completion_gate:
  "showProgress_cp s \<and> progressType s = download \<Longrightarrow>
     (\<not> auto_mode_enabled (automationSettings s) \<longrightarrow>
        modal_visible (panel_step store s Complete)
        \<and> modal_mode (panel_step store s Complete) = download
        \<and> \<not> upload_running (panel_step store s Complete)
        \<and> (selectedSuppliers s \<noteq> []
            \<and> supplier_query store (selectedSuppliers s) = Some supplierProducts
            \<and> supplierProducts \<noteq> []
            \<and> (\<forall>p \<in> set supplierProducts. plain_status (price_status p)) \<longrightarrow>
              (\<exists>rows. modal_products (panel_step store s Complete) = Some rows
                 \<and> mset rows = mset (enrichedProducts supplierProducts
                       (marketplace_query store (unique (map supplier_article supplierProducts))))
                 \<and> sorted (map (\<lambda>p. spec_rank (price_status p)) rows)))
        \<and> (upload_running (panel_run store (panel_step store s Complete) events) \<longrightarrow>
              (\<exists>before modalMarketplaces modalProducts after.
                 events = before @ ModalUpload modalMarketplaces modalProducts # after
                 \<and> modalMarketplaces \<noteq> [] \<and> modalProducts \<noteq> []
                 \<and> modal_visible (panel_run store (panel_step store s Complete) before)
                 \<and> modal_mode (panel_run store (panel_step store s Complete) before) = upload)))
     \<and> (auto_mode_enabled (automationSettings s) \<longrightarrow>
        showPriceUpdateModal (panel_step store s Complete) = showPriceUpdateModal s
        \<and> \<not> upload_running (panel_step store s Complete))"
proof -
  assume run: "showProgress_cp s \<and> progressType s = download"
  have manual: ?thesis if manual: "\<not> auto_mode_enabled (automationSettings s)"
  proof -
    note c = complete_download_manual [of s store] run manual
    have list: "\<exists>rows. modal_products (panel_step store s Complete) = Some rows
                 \<and> mset rows = mset (enrichedProducts supplierProducts
                       (marketplace_query store (unique (map supplier_article supplierProducts))))
                 \<and> sorted (map (\<lambda>p. spec_rank (price_status p)) rows)"
      if "selectedSuppliers s \<noteq> []"
        "supplier_query store (selectedSuppliers s) = Some supplierProducts"
        "supplierProducts \<noteq> []"
        "\<forall>p \<in> set supplierProducts. plain_status (price_status p)"
      using fetchProducts_reconciled [of store "selectedSuppliers s" supplierProducts "Some []"]
        that c by simp
    have order: "\<exists>before modalMarketplaces modalProducts after.
                 events = before @ ModalUpload modalMarketplaces modalProducts # after
                 \<and> modalMarketplaces \<noteq> [] \<and> modalProducts \<noteq> []
                 \<and> modal_visible (panel_run store (panel_step store s Complete) before)
                 \<and> modal_mode (panel_run store (panel_step store s Complete) before) = upload"
      if "upload_running (panel_run store (panel_step store s Complete) events)"
      using upload_run_passes_modal [of "panel_step store s Complete" store events] that c
      by simp
    from c list order manual show ?thesis by blast
  qed
  have auto_mode: ?thesis if "auto_mode_enabled (automationSettings s)"
    using that run
    by (simp add: panel_step_def modal_effect_fields modal_effect_views
        ControlPanel_onComplete_def Let_def upload_running_def)
  from manual auto_mode show ?thesis by blast
qed

text \<open>
  A download over one supplier, started from the panel and completed, in manual mode: the
  review opens with the two reconciled rows, the increased one first; the user closes it,
  asks for an upload, selects in the review and confirms, and only then does the upload
  run start. In auto mode the completion opens nothing.
\<close>

theorem download_completion_gate_witness:
  "showProgress_cp (panel_step example_queries (example_panel False) LoadPrices)
   \<and> progressType (panel_step example_queries (example_panel False) LoadPrices) = download
   \<and> \<not> auto_mode_enabled (automationSettings
        (panel_step example_queries (example_panel False) LoadPrices))
   \<and> selectedSuppliers (panel_step example_queries (example_panel False) LoadPrices) \<noteq> []
   \<and> supplier_query example_queries
        (selectedSuppliers (panel_step example_queries (example_panel False) LoadPrices))
       = Some [supplier_row ''s1'' ''A1'' ''X'' (Some ''unchanged''),
               supplier_row ''s2'' ''B2'' ''W'' (Some ''increased'')]
   \<and> list_all (\<lambda>p. plain_status (price_status p))
        [supplier_row ''s1'' ''A1'' ''X'' (Some ''unchanged''),
         supplier_row ''s2'' ''B2'' ''W'' (Some ''increased'')]
   \<and> modal_visible (panel_step example_queries
        (panel_step example_queries (example_panel False) LoadPrices) Complete)
   \<and> map_option (map display_name) (modal_products (panel_step example_queries
        (panel_step example_queries (example_panel False) LoadPrices) Complete))
       = Some [Some ''W'', Some ''Y'']
   \<and> upload_running (panel_run example_queries
        (panel_step example_queries
          (panel_step example_queries (example_panel False) LoadPrices) Complete)
        [CloseModal, UploadPrices, ModalUpload [''M1''] [''s1'']])
   \<and> modal_visible (panel_run example_queries
        (panel_step example_queries
          (panel_step example_queries (example_panel False) LoadPrices) Complete)
        [CloseModal, UploadPrices])
   \<and> modal_mode (panel_run example_queries
        (panel_step example_queries
          (panel_step example_queries (example_panel False) LoadPrices) Complete)
        [CloseModal, UploadPrices]) = upload
   \<and> auto_mode_enabled (automationSettings
        (panel_step example_queries (example_panel True) LoadPrices))
   \<and> \<not> showPriceUpdateModal (panel_step example_queries
        (panel_step example_queries (example_panel True) LoadPrices) Complete)"
proof -
  have manual: "showProgress_cp (panel_step example_queries (example_panel False) LoadPrices)
      \<and> progressType (panel_step example_queries (example_panel False) LoadPrices) = download"
    and auto_mode: "showProgress_cp (panel_step example_queries (example_panel True) LoadPrices)
      \<and> progressType (panel_step example_queries (example_panel True) LoadPrices) = download"
    by (simp_all add: panel_step_def modal_effect_def example_panel_def handleLoadPrices_def
        main_view_def Let_def)
  have plain: "list_all (\<lambda>p. plain_status (price_status p))
        [supplier_row ''s1'' ''A1'' ''X'' (Some ''unchanged''),
         supplier_row ''s2'' ''B2'' ''W'' (Some ''increased'')]"
    by (simp add: plain_status_def supplier_row_def Object_prototype_keys_def)
  have shown: "map_option (map display_name) (modal_products (panel_step example_queries
        (panel_step example_queries (example_panel False) LoadPrices) Complete))
       = Some [Some ''W'', Some ''Y'']"
    by (simp add: panel_step_def modal_effect_def example_panel_def example_queries_def
        handleLoadPrices_def ControlPanel_onComplete_def main_view_def Let_def
        fetchProducts_def fetchedProducts_def unique_def sortedProducts_def array_sort_def
        consistent_def SortCompare_def compareProducts_def order_of_def statusOrder_def
        Object_prototype_keys_def enrichedProducts_def enrichProduct_def articleMapping_def
        articleMapping_set_def or_string_def supplier_row_def marketplace_row_def)
  have trace: "upload_running (panel_run example_queries
        (panel_step example_queries
          (panel_step example_queries (example_panel False) LoadPrices) Complete)
        [CloseModal, UploadPrices, ModalUpload [''M1''] [''s1'']])
     \<and> modal_visible (panel_run example_queries
        (panel_step example_queries
          (panel_step example_queries (example_panel False) LoadPrices) Complete)
        [CloseModal, UploadPrices])
     \<and> modal_mode (panel_run example_queries
        (panel_step example_queries
          (panel_step example_queries (example_panel False) LoadPrices) Complete)
        [CloseModal, UploadPrices]) = upload"
    by (simp add: panel_run_def panel_step_def modal_effect_fields modal_effect_views
        example_panel_def handleLoadPrices_def ControlPanel_onComplete_def onClose_def
        handleUploadPrices_def handleUpload_def handleStartUpload_def main_view_def
        modal_visible_def modal_mode_def upload_running_def Let_def)
  from download_completion_gate [OF manual, of example_queries]
    download_completion_gate [OF auto_mode, of example_queries]
  have "modal_visible (panel_step example_queries
        (panel_step example_queries (example_panel False) LoadPrices) Complete)
     \<and> \<not> showPriceUpdateModal (panel_step example_queries
        (panel_step example_queries (example_panel True) LoadPrices) Complete)"
    by (simp add: panel_step_def modal_effect_fields example_panel_def handleLoadPrices_def
        main_view_def)
  with manual plain shown trace show ?thesis
    by (simp add: panel_step_def modal_effect_fields example_panel_def example_queries_def
        handleLoadPrices_def main_view_def)
qed

section \<open>Properties of the price list export\<close>

text \<open>
  C9. Exporting the one-row list (name Phone, kaspiArticle K1, supplierArticle S1, price
  50000) produces a file that starts with the byte order mark, followed by a
  semicolon-delimited CSV of two lines: the header line first, and as second line
  \<open>"Phone";K1;S1;50000\<close>, the name in double quotes.
\<close>

theorem export_phone_row:
  "handleExportToFile
      [\<lparr> id_k = ''p1'', name = ''Phone'', kaspiArticle = ''K1'', supplierArticle = ''S1'',
         price = 50000 \<rparr>]
     = Some (bom @ csvContent
         [\<lparr> id_k = ''p1'', name = ''Phone'', kaspiArticle = ''K1'', supplierArticle = ''S1'',
            price = 50000 \<rparr>])
   \<and> bom = [CHR 0xEF, CHR 0xBB, CHR 0xBF]
   \<and> split_lines (csvContent
         [\<lparr> id_k = ''p1'', name = ''Phone'', kaspiArticle = ''K1'', supplierArticle = ''S1'',
            price = 50000 \<rparr>])
       = [header_name @ '';'' @ header_kaspi_article @ '';'' @ header_supplier_article
            @ '';'' @ header_price,
          [CHR 0x22] @ ''Phone'' @ [CHR 0x22] @ '';K1;S1;50000'']"
  by (simp add: handleExportToFile_def csvContent_def csvRow_def headers_def bom_def
      int_to_string_def nat_to_string.simps digit_char_def header_name_def
      header_kaspi_article_def header_supplier_article_def header_price_def)

end
